theory Spec2Isabelle
  imports Main "HOL-Library.AList" "HOL-Library.Word"
begin

section \<open>Strings\<close>

text \<open>
  JavaScript's \<^verbatim>\<open>s.split(sep)\<close> for a one-character separator: the pieces between
  the occurrences of the separator, in order. The result is never empty
  (\<^verbatim>\<open>"".split(":")\<close> is \<^verbatim>\<open>[""]\<close>) and a trailing separator gives a trailing
  empty piece.
\<close>

fun split_on :: "char \<Rightarrow> string \<Rightarrow> string list" where
  "split_on c [] = [[]]"
| "split_on c (x # xs) =
     (if x = c then [] # split_on c xs
      else (case split_on c xs of
              [] \<Rightarrow> [[x]]
            | p # ps \<Rightarrow> (x # p) # ps))"

text \<open>\<^verbatim>\<open>s.includes(c)\<close> for a one-character needle.\<close>

definition includes_char :: "string \<Rightarrow> char \<Rightarrow> bool" where
  "includes_char s c = (c \<in> set s)"

section \<open>Errors\<close>

text \<open>
  Every \<^verbatim>\<open>throw new Error(...)\<close> of the source is one constructor, carrying the
  values the message interpolates. \<open>FsError\<close>, \<open>BodyError\<close> and \<open>TypeError\<close> stand
  for the rejections of the runtime itself: a file-system call on the given path,
  reading a response body, and a \<^verbatim>\<open>fetch\<close> that cannot complete or a property access
  on \<^verbatim>\<open>undefined\<close>.
\<close>

datatype error =
    InvalidModelRef string
  | InvalidOrgModel string
  | AuthRequired
  | RequestError nat string
  | DownloadFailed string nat
  | ChecksumMismatch string string string
  | ExplicitTagRequired
  | NoLocalFile string
  | S3UploadFailed nat string
  | FsError string
  | BodyError
  | TypeError

text \<open>
  The message of each error the source throws itself; \<open>String\<close> prints a number.
  The text of a rejection of the runtime is the runtime's, and not modelled.
\<close>

fun error_message :: "(nat \<Rightarrow> string) \<Rightarrow> error \<Rightarrow> string option" where
  "error_message String (InvalidModelRef ref) =
     Some (''Invalid model reference '' @ [CHR 0x22] @ ref @ [CHR 0x22]
           @ ''. Expected format: org/model or org/model:tag'')"
| "error_message String (InvalidOrgModel ref) =
     Some (''Invalid model reference '' @ [CHR 0x22] @ ref @ [CHR 0x22]
           @ ''. Expected format: org/model'')"
| "error_message String AuthRequired =
     Some (''Authentication required. Set the PULLWEIGHTS_API_KEY environment variable. ''
           @ ''Get your API key at https://pullweights.com/dashboard/api-keys'')"
| "error_message String (RequestError st msg) = Some (String st @ '': '' @ msg)"
| "error_message String (DownloadFailed fn st) =
     Some (''Failed to download '' @ fn @ '': '' @ String st)"
| "error_message String (ChecksumMismatch fn expected actual) =
     Some (''Checksum mismatch for '' @ fn @ '': expected '' @ expected @ '', got '' @ actual)"
| "error_message String ExplicitTagRequired =
     Some ''Push requires an explicit tag. Use org/model:tag format.''"
| "error_message String (NoLocalFile fn) = Some (''No local file found for '' @ fn)"
| "error_message String (S3UploadFailed st txt) =
     Some (''S3 upload failed: '' @ String st @ '' '' @ txt)"
| "error_message String (FsError p) = None"
| "error_message String BodyError = None"
| "error_message String TypeError = None"

section \<open>Model references\<close>

record model_ref =
  org :: string
  model :: string
  tag :: string

text \<open>
  \<^verbatim>\<open>parseModelRef\<close>: the reference is split at every colon; the first piece is the
  model part, the second piece (when there is one) the tag, further pieces are
  dropped by the destructuring. The model part must split at \<^verbatim>\<open>/\<close> into exactly two
  non-empty pieces.
\<close>

definition parseModelRef :: "string \<Rightarrow> error + model_ref" where
  "parseModelRef ref =
     (case split_on CHR '':'' ref of
        [] \<Rightarrow> Inl TypeError
      | modelPart # rest \<Rightarrow>
          (let tg = (case rest of [] \<Rightarrow> ''latest'' | t # _ \<Rightarrow> t);
               parts = split_on CHR ''/'' modelPart
           in if length parts \<noteq> 2 \<or> parts ! 0 = [] \<or> parts ! 1 = []
              then Inl (InvalidModelRef ref)
              else Inr \<lparr>org = parts ! 0, model = parts ! 1, tag = tg\<rparr>))"

text \<open>Reconstructing the textual form of a parsed reference.\<close>

definition ref_string :: "model_ref \<Rightarrow> string" where
  "ref_string r = org r @ ''/'' @ model r @ '':'' @ tag r"

text \<open>
  The spec's words for a well-formed model part: exactly one \<^verbatim>\<open>/\<close>, separating two
  non-empty segments.
\<close>

definition one_slash_two_segments :: "string \<Rightarrow> bool" where
  "one_slash_two_segments s =
     (length (filter (\<lambda>c. c = CHR ''/'') s) = 1 \<and> s \<noteq> [] \<and>
      hd s \<noteq> CHR ''/'' \<and> last s \<noteq> CHR ''/'')"

section \<open>Wire types\<close>

type_synonym bytes = "8 word list"

record model_summary =
  ms_id :: string
  ms_org :: string
  ms_name :: string
  ms_description :: "string option"
  ms_visibility :: string
  ms_framework :: "string option"
  ms_license :: "string option"
  ms_tags :: "string list"
  ms_download_count :: nat
  ms_x402_price_usd :: "string option"
  ms_created_at :: string
  ms_updated_at :: string

record org_summary =
  os_id :: string
  os_name :: string
  os_display_name :: "string option"
  os_description :: "string option"
  os_is_personal :: bool
  os_member_count :: nat
  os_model_count :: nat
  os_role :: string
  os_created_at :: string

record pull_file =
  pf_filename :: string
  pf_download_url :: string
  pf_sha256 :: string
  pf_size_bytes :: nat

record pull_response =
  pr_org :: string
  pr_model :: string
  pr_tag :: string
  pr_version_id :: string
  pr_sha256_digest :: string
  pr_total_size_bytes :: nat
  pr_files :: "pull_file list"

record push_init_upload =
  up_filename :: string
  up_s3_key :: string
  up_upload_url :: string

record push_init_response =
  pi_push_id :: string
  pi_uploads :: "push_init_upload list"

record push_finalize_file =
  ff_filename :: string
  ff_size_bytes :: nat
  ff_sha256 :: string

record push_finalize_response =
  fr_version_id :: string
  fr_tag :: string
  fr_total_size_bytes :: nat
  fr_sha256_digest :: string
  fr_files :: "push_finalize_file list"

text \<open>The bodies the client posts: the argument objects of \<^verbatim>\<open>pushInit\<close> and \<^verbatim>\<open>pushFinalize\<close>.\<close>

record file_descriptor =
  fd_filename :: string
  fd_size_bytes :: nat
  fd_sha256 :: string

record push_init_body =
  ib_tag :: string
  ib_type :: "string option"
  ib_description :: "string option"
  ib_visibility :: "string option"
  ib_files :: "file_descriptor list"

record push_finalize_body =
  fb_push_id :: string
  fb_tag :: string

datatype req_body = NoBody | PushInitBody push_init_body | PushFinalizeBody push_finalize_body

record http_request =
  url :: string
  http_method :: string
  headers :: "(string \<times> string) list"
  body :: req_body

text \<open>
  What a \<^verbatim>\<open>fetch\<close> resolves to. \<open>json_error\<close> is how the body reads as an error object
  (\<open>None\<close> when \<^verbatim>\<open>res.json()\<close> or the \<^verbatim>\<open>in\<close> test throws); \<open>payload\<close> is how the body
  reads at the type the caller expects (\<open>None\<close> when reading it rejects). A server
  oracle returns \<open>None\<close> when the \<^verbatim>\<open>fetch\<close> promise itself rejects.
\<close>

datatype api_error = ApiError string | MessageBody "string option"

record 'a response =
  ok :: bool
  status :: nat
  statusText :: string
  json_error :: "api_error option"
  payload :: "'a option"

section \<open>The world\<close>

text \<open>
  Every call that leaves the process is appended to the trace, in the order the
  program issues it; the disk maps a path to the content of the file there.
\<close>

datatype event =
    Http http_request
  | Download string
  | S3Put string "(string \<times> string) list" bytes
  | ReadFile string
  | Stat string
  | Mkdir string
  | WriteFile string bytes

record world =
  fs :: "string \<Rightarrow> bytes option"
  trace :: "event list"

definition log_event :: "event \<Rightarrow> world \<Rightarrow> world" where
  "log_event e w = w\<lparr>trace := trace w @ [e]\<rparr>"

text \<open>
  The library functions the program calls, the operating system and the servers
  it talks to. Hashing, URL encoding, path arithmetic, number formatting and
  \<^verbatim>\<open>String.prototype.slice\<close> (\<open>str_slice s i j\<close>, which counts UTF-16 code units) are
  left as parameters. \<open>stat_size\<close> is the size \<^verbatim>\<open>stat\<close> reports for a path (\<open>None\<close> when
  it rejects); \<open>read_done i p\<close> is the time at which the \<^verbatim>\<open>readFile\<close> of the path \<open>p\<close> at
  index \<open>i\<close> of a push is done, and \<open>stat_time i p\<close> the time its \<^verbatim>\<open>stat\<close> takes after
  that. The server oracles answer a request by its content: within one run, the
  same request gets the same answer.
\<close>

record env =
  sha256 :: "bytes \<Rightarrow> string"
  encodeURIComponent :: "string \<Rightarrow> string"
  qs_toString :: "(string \<times> string) list \<Rightarrow> string"
  String_of_number :: "nat \<Rightarrow> string"
  formatBytes :: "nat \<Rightarrow> string"
  str_slice :: "string \<Rightarrow> nat \<Rightarrow> nat \<Rightarrow> string"
  join :: "string \<Rightarrow> string \<Rightarrow> string"
  resolve :: "string list \<Rightarrow> string"
  mkdir_ok :: "string \<Rightarrow> bool"
  writeFile_ok :: "string \<Rightarrow> bool"
  stat_size :: "string \<Rightarrow> nat option"
  read_done :: "nat \<Rightarrow> string \<Rightarrow> nat"
  stat_time :: "nat \<Rightarrow> string \<Rightarrow> nat"
  fetch_download :: "string \<Rightarrow> bytes response option"
  fetch_s3 :: "string \<Rightarrow> bytes \<Rightarrow> unit response option"
  api_models :: "http_request \<Rightarrow> model_summary list response option"
  api_orgs :: "http_request \<Rightarrow> org_summary list response option"
  api_pull :: "http_request \<Rightarrow> pull_response response option"
  api_push_init :: "http_request \<Rightarrow> push_init_response response option"
  api_push_finalize :: "http_request \<Rightarrow> push_finalize_response response option"

text \<open>
  \<^verbatim>\<open>await p\<close> followed by the rest of an async function: a rejection of \<open>p\<close> ends the
  function with that error, in the world \<open>p\<close> left behind.
\<close>

definition await :: "(world \<Rightarrow> (error + 'a) \<times> world) \<Rightarrow>
    ('a \<Rightarrow> world \<Rightarrow> (error + 'b) \<times> world) \<Rightarrow> world \<Rightarrow> (error + 'b) \<times> world" where
  "await p k w = (case p w of (Inl e, w1) \<Rightarrow> (Inl e, w1) | (Inr a, w1) \<Rightarrow> k a w1)"

text \<open>JavaScript truthiness of an optional string: \<^verbatim>\<open>undefined\<close> and \<^verbatim>\<open>""\<close> are falsy.\<close>

definition truthy :: "string option \<Rightarrow> bool" where
  "truthy v = (case v of None \<Rightarrow> False | Some s \<Rightarrow> s \<noteq> [])"

text \<open>\<^verbatim>\<open>a || b\<close> on an optional string.\<close>

definition or_else :: "string option \<Rightarrow> string \<Rightarrow> string" where
  "or_else v d = (case v of None \<Rightarrow> d | Some s \<Rightarrow> if s = [] then d else s)"

text \<open>\<^verbatim>\<open>lines.join("\n")\<close>.\<close>

fun join_lines :: "string list \<Rightarrow> string" where
  "join_lines [] = []"
| "join_lines [l] = l"
| "join_lines (l # ls) = l @ [CHR 0x0A] @ join_lines ls"

text \<open>The non-ASCII characters of the report texts, as UTF-8.\<close>

definition em_dash :: string where
  "em_dash = [CHR 0xE2, CHR 0x80, CHR 0x94]"

definition check_mark :: string where
  "check_mark = [CHR 0xE2, CHR 0x9C, CHR 0x93]"

definition ellipsis :: string where
  "ellipsis = [CHR 0xE2, CHR 0x80, CHR 0xA6]"

section \<open>The registry client\<close>

record client =
  baseUrl :: string
  apiKey :: "string option"

definition USER_AGENT :: string where
  "USER_AGENT = ''pullweights-mcp/0.1.0''"

text \<open>The constructor reads the two environment variables; one trailing slash is removed.\<close>

definition new_client :: "string option \<Rightarrow> string option \<Rightarrow> client" where
  "new_client api_url api_key =
     (let u = or_else api_url ''https://api.pullweights.com''
      in \<lparr>baseUrl = (if u \<noteq> [] \<and> last u = CHR ''/'' then butlast u else u),
          apiKey = api_key\<rparr>)"

definition client_headers :: "client \<Rightarrow> (string \<times> string) list" where
  "client_headers c =
     [(''User-Agent'', USER_AGENT), (''Accept'', ''application/json'')] @
     (case apiKey c of
        None \<Rightarrow> []
      | Some k \<Rightarrow> if k = [] then [] else [(''Authorization'', ''Bearer '' @ k)])"

definition requireAuth :: "client \<Rightarrow> world \<Rightarrow> (error + unit) \<times> world" where
  "requireAuth c w = (if \<not> truthy (apiKey c) then (Inl AuthRequired, w) else (Inr (), w))"

text \<open>Object spread \<^verbatim>\<open>{...a, ...b}\<close> on header objects: \<open>b\<close> overrides, new keys go last.\<close>

definition spread :: "(string \<times> string) list \<Rightarrow> (string \<times> string) list \<Rightarrow> (string \<times> string) list" where
  "spread a b = fold (\<lambda>(k, v). AList.update k v) b a"

record req_init =
  ri_method :: string
  ri_headers :: "(string \<times> string) list"
  ri_body :: req_body

definition response_message :: "'a response \<Rightarrow> string" where
  "response_message res =
     (case json_error res of
        None \<Rightarrow> statusText res
      | Some (ApiError e) \<Rightarrow> e
      | Some (MessageBody m) \<Rightarrow> or_else m (statusText res))"

text \<open>The request that \<^verbatim>\<open>request\<close> hands to \<^verbatim>\<open>fetch\<close>: base URL plus path, the
  client's headers overridden by those of \<open>init\<close>, GET when no method is given.\<close>

definition build_request :: "client \<Rightarrow> string \<Rightarrow> req_init option \<Rightarrow> http_request" where
  "build_request c path init =
     \<lparr>url = baseUrl c @ path,
      http_method = (case init of None \<Rightarrow> ''GET'' | Some i \<Rightarrow> ri_method i),
      headers = spread (client_headers c) (case init of None \<Rightarrow> [] | Some i \<Rightarrow> ri_headers i),
      body = (case init of None \<Rightarrow> NoBody | Some i \<Rightarrow> ri_body i)\<rparr>"

text \<open>
  \<^verbatim>\<open>request<T>\<close>: one \<^verbatim>\<open>fetch\<close> against the base URL. A non-2xx answer is an error
  carrying the status and the message of the body; otherwise the body is returned
  at the type the caller expects.
\<close>

definition request :: "(http_request \<Rightarrow> 'a response option) \<Rightarrow> client \<Rightarrow> string \<Rightarrow>
    req_init option \<Rightarrow> world \<Rightarrow> (error + 'a) \<times> world" where
  "request net c path init w =
     (let req = build_request c path init;
          w1 = log_event (Http req) w
      in case net req of
           None \<Rightarrow> (Inl TypeError, w1)
         | Some res \<Rightarrow>
             if \<not> ok res then (Inl (RequestError (status res) (response_message res)), w1)
             else (case payload res of
                     None \<Rightarrow> (Inl BodyError, w1)
                   | Some v \<Rightarrow> (Inr v, w1)))"

record 'n search_params =
  sp_q :: "string option"
  sp_type :: "string option"
  sp_per_page :: "'n option"
  sp_framework :: "string option"
  sp_sort :: "string option"
  sp_page :: "'n option"

text \<open>
  \<^verbatim>\<open>search\<close>: the query string holds the truthy parameters, in the order the source
  sets them. The number type and its truthiness and printing are parameters.
\<close>

definition search_path :: "env \<Rightarrow> ('n \<Rightarrow> bool) \<Rightarrow> ('n \<Rightarrow> string) \<Rightarrow> 'n search_params \<Rightarrow> string" where
  "search_path env num_truthy num_String params =
     (let str = (\<lambda>k v. case v of None \<Rightarrow> []
                        | Some t \<Rightarrow> if t = [] then [] else [(k, t)]);
          num = (\<lambda>k v. case v of None \<Rightarrow> []
                        | Some n \<Rightarrow> if num_truthy n then [(k, num_String n)] else []);
          qs = str ''q'' (sp_q params) @ str ''type'' (sp_type params) @
               num ''per_page'' (sp_per_page params) @
               str ''framework'' (sp_framework params) @ str ''sort'' (sp_sort params) @
               num ''page'' (sp_page params);
          query = qs_toString env qs
      in ''/v1/search'' @ (if query \<noteq> [] then ''?'' @ query else []))"

definition search :: "env \<Rightarrow> ('n \<Rightarrow> bool) \<Rightarrow> ('n \<Rightarrow> string) \<Rightarrow>
    (http_request \<Rightarrow> 'a response option) \<Rightarrow> client \<Rightarrow> 'n search_params \<Rightarrow>
    world \<Rightarrow> (error + 'a) \<times> world" where
  "search env num_truthy num_String net c params w =
     request net c (search_path env num_truthy num_String params) None w"

definition listModels :: "env \<Rightarrow> (http_request \<Rightarrow> 'a response option) \<Rightarrow> client \<Rightarrow> string \<Rightarrow>
    world \<Rightarrow> (error + 'a) \<times> world" where
  "listModels env net c og w =
     request net c (''/v1/models/'' @ encodeURIComponent env og) None w"

definition listOrgs :: "env \<Rightarrow> (http_request \<Rightarrow> 'a response option) \<Rightarrow> client \<Rightarrow>
    world \<Rightarrow> (error + 'a) \<times> world" where
  "listOrgs env net c w =
     await (requireAuth c) (\<lambda>_. request net c ''/v1/orgs'' None) w"

definition getManifest :: "env \<Rightarrow> (http_request \<Rightarrow> 'a response option) \<Rightarrow> client \<Rightarrow>
    string \<Rightarrow> string \<Rightarrow> string \<Rightarrow> world \<Rightarrow> (error + 'a) \<times> world" where
  "getManifest env net c og md tg w =
     request net c (''/v1/models/'' @ encodeURIComponent env og @ ''/'' @
                    encodeURIComponent env md @ ''/manifests/'' @ encodeURIComponent env tg)
       None w"

definition listTags :: "env \<Rightarrow> (http_request \<Rightarrow> 'a response option) \<Rightarrow> client \<Rightarrow>
    string \<Rightarrow> string \<Rightarrow> world \<Rightarrow> (error + 'a) \<times> world" where
  "listTags env net c og md w =
     request net c (''/v1/models/'' @ encodeURIComponent env og @ ''/'' @
                    encodeURIComponent env md @ ''/tags'') None w"

definition pull_path :: "env \<Rightarrow> string \<Rightarrow> string \<Rightarrow> string \<Rightarrow> string" where
  "pull_path env og md tg =
     ''/v1/models/'' @ encodeURIComponent env og @ ''/'' @ encodeURIComponent env md @
     ''/pull/'' @ encodeURIComponent env tg"

definition push_init_path :: "env \<Rightarrow> string \<Rightarrow> string \<Rightarrow> string" where
  "push_init_path env og md =
     ''/v1/models/'' @ encodeURIComponent env og @ ''/'' @ encodeURIComponent env md @
     ''/push/init''"

definition push_finalize_path :: "env \<Rightarrow> string \<Rightarrow> string \<Rightarrow> string" where
  "push_finalize_path env og md =
     ''/v1/models/'' @ encodeURIComponent env og @ ''/'' @ encodeURIComponent env md @
     ''/push/finalize''"

definition client_pull :: "env \<Rightarrow> client \<Rightarrow> string \<Rightarrow> string \<Rightarrow> string \<Rightarrow>
    world \<Rightarrow> (error + pull_response) \<times> world" where
  "client_pull env c og md tg w =
     await (requireAuth c)
       (\<lambda>_. request (api_pull env) c (pull_path env og md tg) None) w"

definition json_post :: "req_body \<Rightarrow> req_init" where
  "json_post b = \<lparr>ri_method = ''POST'',
                  ri_headers = [(''Content-Type'', ''application/json'')],
                  ri_body = b\<rparr>"

definition pushInit :: "env \<Rightarrow> client \<Rightarrow> string \<Rightarrow> string \<Rightarrow> push_init_body \<Rightarrow>
    world \<Rightarrow> (error + push_init_response) \<times> world" where
  "pushInit env c og md b w =
     await (requireAuth c)
       (\<lambda>_. request (api_push_init env) c (push_init_path env og md)
               (Some (json_post (PushInitBody b)))) w"

text \<open>
  \<^verbatim>\<open>uploadToS3\<close>: a PUT straight to the given URL, with its own two headers and
  neither the base URL nor the client's headers.
\<close>

definition s3_put_event :: "env \<Rightarrow> string \<Rightarrow> bytes \<Rightarrow> event" where
  "s3_put_event env u data =
     S3Put u [(''Content-Type'', ''application/octet-stream''),
              (''Content-Length'', String_of_number env (length data))] data"

definition uploadToS3 :: "env \<Rightarrow> string \<Rightarrow> bytes \<Rightarrow> world \<Rightarrow> (error + unit) \<times> world" where
  "uploadToS3 env u data w =
     (let w1 = log_event (s3_put_event env u data) w
      in case fetch_s3 env u data of
           None \<Rightarrow> (Inl TypeError, w1)
         | Some res \<Rightarrow>
             if \<not> ok res then (Inl (S3UploadFailed (status res) (statusText res)), w1)
             else (Inr (), w1))"

definition pushFinalize :: "env \<Rightarrow> client \<Rightarrow> string \<Rightarrow> string \<Rightarrow> push_finalize_body \<Rightarrow>
    world \<Rightarrow> (error + push_finalize_response) \<times> world" where
  "pushFinalize env c og md b w =
     await (requireAuth c)
       (\<lambda>_. request (api_push_finalize env) c (push_finalize_path env og md)
               (Some (json_post (PushFinalizeBody b)))) w"

section \<open>The file system\<close>

definition mkdir :: "env \<Rightarrow> string \<Rightarrow> world \<Rightarrow> (error + unit) \<times> world" where
  "mkdir env p w =
     (if mkdir_ok env p then (Inr (), log_event (Mkdir p) w)
      else (Inl (FsError p), log_event (Mkdir p) w))"

definition writeFile :: "env \<Rightarrow> string \<Rightarrow> bytes \<Rightarrow> world \<Rightarrow> (error + unit) \<times> world" where
  "writeFile env p data w =
     (if writeFile_ok env p
      then (Inr (), w\<lparr>fs := (fs w)(p \<mapsto> data), trace := trace w @ [WriteFile p data]\<rparr>)
      else (Inl (FsError p), log_event (WriteFile p data) w))"

section \<open>The ls tool\<close>

definition model_line :: "model_summary \<Rightarrow> string" where
  "model_line m =
     ms_org m @ ''/'' @ ms_name m @ '':'' @
     (case ms_tags m of [] \<Rightarrow> ''latest'' | t # _ \<Rightarrow> if t = [] then ''latest'' else t) @
     '' '' @ em_dash @ '' '' @ or_else (ms_description m) ''No description'' @
     '' ['' @ ms_visibility m @ '']''"

definition org_line :: "env \<Rightarrow> org_summary \<Rightarrow> string" where
  "org_line env og =
     os_name og @ (if os_is_personal og then '' (personal)'' else []) @
     '' '' @ em_dash @ '' '' @ String_of_number env (os_model_count og) @ '' models, '' @
     String_of_number env (os_member_count og) @ '' members ['' @ os_role og @ '']''"

definition orgs_report :: "env \<Rightarrow> org_summary list \<Rightarrow> string" where
  "orgs_report env orgs =
     (if length orgs = 0 then ''No organizations found.''
      else join_lines (map (org_line env) orgs))"

text \<open>
  The handler of \<^verbatim>\<open>ls\<close>: with a truthy \<open>org\<close> argument it lists that organisation's
  models, otherwise the caller's organisations.
\<close>

definition ls :: "env \<Rightarrow> client \<Rightarrow> string option \<Rightarrow> world \<Rightarrow> (error + string) \<times> world" where
  "ls env c org_arg w =
     (if truthy org_arg then
        await (listModels env (api_models env) c (or_else org_arg []))
          (\<lambda>models w1.
             if length models = 0
             then (Inr (''No models found in '' @ or_else org_arg [] @ ''.''), w1)
             else (Inr (join_lines (map model_line models)), w1)) w
      else
        await (listOrgs env (api_orgs env) c)
          (\<lambda>orgs w1. (Inr (orgs_report env orgs), w1)) w)"

section \<open>The pull tool\<close>

definition downloaded_line :: "env \<Rightarrow> pull_file \<Rightarrow> string" where
  "downloaded_line env file =
     pf_filename file @ '' '' @ em_dash @ '' '' @ formatBytes env (pf_size_bytes file) @
     '' '' @ check_mark"

text \<open>
  The loop over the files of the plan, one file at a time: fetch, hash, compare,
  write. \<open>downloaded\<close> is the list of report lines so far.
\<close>

fun pull_files :: "env \<Rightarrow> string \<Rightarrow> pull_file list \<Rightarrow> string list \<Rightarrow> world \<Rightarrow>
    (error + string list) \<times> world" where
  "pull_files env destDir [] downloaded w = (Inr downloaded, w)"
| "pull_files env destDir (file # rest) downloaded w =
     (let filePath = join env destDir (pf_filename file);
          w1 = log_event (Download (pf_download_url file)) w
      in case fetch_download env (pf_download_url file) of
           None \<Rightarrow> (Inl TypeError, w1)
         | Some res \<Rightarrow>
             if \<not> ok res then (Inl (DownloadFailed (pf_filename file) (status res)), w1)
             else (case payload res of
                 None \<Rightarrow> (Inl BodyError, w1)
               | Some buffer \<Rightarrow>
                   (let checksum = sha256 env buffer
                    in if checksum \<noteq> pf_sha256 file
                       then (Inl (ChecksumMismatch (pf_filename file) (pf_sha256 file) checksum), w1)
                       else (case writeFile env filePath buffer w1 of
                               (Inl e, w2) \<Rightarrow> (Inl e, w2)
                             | (Inr _, w2) \<Rightarrow>
                                 pull_files env destDir rest
                                   (downloaded @ [downloaded_line env file]) w2))))"

definition pull_report :: "env \<Rightarrow> model_ref \<Rightarrow> string \<Rightarrow> pull_response \<Rightarrow> string list \<Rightarrow> string" where
  "pull_report env ref destDir pullRes downloaded =
     join_lines
       ([''Downloaded '' @ org ref @ ''/'' @ model ref @ '':'' @ tag ref @ '' to '' @ destDir,
         ''Digest: '' @ pr_sha256_digest pullRes,
         ''Total: '' @ formatBytes env (pr_total_size_bytes pullRes),
         []] @ downloaded)"

definition pull :: "env \<Rightarrow> client \<Rightarrow> string \<Rightarrow> string option \<Rightarrow> world \<Rightarrow>
    (error + string) \<times> world" where
  "pull env c model_arg output_dir w =
     (case parseModelRef model_arg of
        Inl e \<Rightarrow> (Inl e, w)
      | Inr ref \<Rightarrow>
          await (client_pull env c (org ref) (model ref) (tag ref))
            (\<lambda>pullRes.
               let destDir = or_else output_dir
                     (resolve env [''pullweights_models'', org ref, model ref, tag ref])
               in await (mkdir env destDir)
                    (\<lambda>_. await (pull_files env destDir (pr_files pullRes) [])
                       (\<lambda>downloaded w3.
                          (Inr (pull_report env ref destDir pullRes downloaded), w3)))) w)"

section \<open>The push tool\<close>

record fileInfo =
  fi_path :: string
  fi_filename :: string
  fi_size_bytes :: nat
  fi_sha256 :: string
  fi_data :: bytes

text \<open>\<^verbatim>\<open>filePath.split("/").pop()\<close>: the piece after the last slash.\<close>

definition basename :: "string \<Rightarrow> string" where
  "basename filePath = last (split_on CHR ''/'' filePath)"

text \<open>
  The record the source builds for one path from the content \<^verbatim>\<open>readFile\<close> returned
  and the size \<^verbatim>\<open>stat\<close> reported.
\<close>

definition mk_fileInfo :: "env \<Rightarrow> string \<Rightarrow> bytes \<Rightarrow> nat \<Rightarrow> fileInfo" where
  "mk_fileInfo env filePath data sz =
     \<lparr>fi_path = filePath, fi_filename = basename filePath, fi_size_bytes = sz,
      fi_sha256 = sha256 env data, fi_data = data\<rparr>"

text \<open>
  One run of the async function that \<^verbatim>\<open>files.map\<close> applies to the path at index
  \<open>fst ip\<close>: \<^verbatim>\<open>readFile\<close>, then \<^verbatim>\<open>stat\<close>, then the record. The result is the time at
  which its promise settles and what it settles to. A failed read rejects when the
  read is done and \<^verbatim>\<open>stat\<close> is never called; otherwise \<^verbatim>\<open>stat\<close> is called when the read
  is done and the promise settles when \<^verbatim>\<open>stat\<close> does.
\<close>

definition callback :: "env \<Rightarrow> (string \<Rightarrow> bytes option) \<Rightarrow> nat \<times> string \<Rightarrow>
    nat \<times> (error + fileInfo)" where
  "callback env disk ip =
     (case disk (snd ip) of
        None \<Rightarrow> (read_done env (fst ip) (snd ip), Inl (FsError (snd ip)))
      | Some data \<Rightarrow>
          (read_done env (fst ip) (snd ip) + stat_time env (fst ip) (snd ip),
           case stat_size env (snd ip) of
             None \<Rightarrow> Inl (FsError (snd ip))
           | Some sz \<Rightarrow> Inr (mk_fileInfo env (snd ip) data sz)))"

text \<open>
  The calls of \<^verbatim>\<open>stat\<close>, each with the time at which it is issued (the time its read
  is done), in the order of issue: one for every path whose read succeeds.
\<close>

definition stat_calls :: "env \<Rightarrow> (string \<Rightarrow> bytes option) \<Rightarrow> string list \<Rightarrow> (nat \<times> string) list" where
  "stat_calls env disk files =
     sort_key fst
       (map (\<lambda>ip. (read_done env (fst ip) (snd ip), snd ip))
          (filter (\<lambda>ip. disk (snd ip) \<noteq> None) (enumerate 0 files)))"

text \<open>
  \<^verbatim>\<open>Promise.all\<close>: the earliest rejection among the settled promises (the lower
  index when two reject at the same time), and the values of the resolved ones in
  input order.
\<close>

fun first_rejection :: "(nat \<times> (error + 'a)) list \<Rightarrow> (nat \<times> error) option" where
  "first_rejection [] = None"
| "first_rejection ((t, Inr v) # rest) = first_rejection rest"
| "first_rejection ((t, Inl e) # rest) =
     (case first_rejection rest of
        None \<Rightarrow> Some (t, e)
      | Some later \<Rightarrow> if fst later < t then Some later else Some (t, e))"

fun resolved :: "(nat \<times> (error + 'a)) list \<Rightarrow> 'a list" where
  "resolved [] = []"
| "resolved ((t, Inr v) # rest) = v # resolved rest"
| "resolved ((t, Inl e) # rest) = resolved rest"

text \<open>
  \<^verbatim>\<open>await Promise.all(files.map(async ...))\<close>: mapping the async function over the
  paths issues \<^verbatim>\<open>readFile\<close> for every path, in input order, before any read is
  done. Each \<^verbatim>\<open>stat\<close> is issued when its own read is done, so the order of the
  \<^verbatim>\<open>stat\<close> calls is that of the read times. When every promise resolves, the result
  is the list of records in input order. When one rejects, the handler goes on
  with the earliest rejection, and the world it sees holds the \<^verbatim>\<open>stat\<close> calls issued
  up to then.
\<close>

definition readInfos :: "env \<Rightarrow> string list \<Rightarrow> world \<Rightarrow> (error + fileInfo list) \<times> world" where
  "readInfos env files w =
     (let outcomes = map (callback env (fs w)) (enumerate 0 files);
          calls = stat_calls env (fs w) files
      in case first_rejection outcomes of
           None \<Rightarrow>
             (Inr (resolved outcomes),
              w\<lparr>trace := trace w @ map ReadFile files @ map (\<lambda>tp. Stat (snd tp)) calls\<rparr>)
         | Some rejection \<Rightarrow>
             (Inl (snd rejection),
              w\<lparr>trace := trace w @ map ReadFile files @
                          map (\<lambda>tp. Stat (snd tp))
                            (filter (\<lambda>tp. fst tp \<le> fst rejection) calls)\<rparr>))"

definition descriptor :: "fileInfo \<Rightarrow> file_descriptor" where
  "descriptor f =
     \<lparr>fd_filename = fi_filename f, fd_size_bytes = fi_size_bytes f, fd_sha256 = fi_sha256 f\<rparr>"

text \<open>
  Phase 2: the loop runs over the upload targets of the init response; each target
  is matched to the first local record with its filename.
\<close>

fun upload_all :: "env \<Rightarrow> fileInfo list \<Rightarrow> push_init_upload list \<Rightarrow> world \<Rightarrow>
    (error + unit) \<times> world" where
  "upload_all env fileInfos [] w = (Inr (), w)"
| "upload_all env fileInfos (upload # rest) w =
     (case find (\<lambda>f. fi_filename f = up_filename upload) fileInfos of
        None \<Rightarrow> (Inl (NoLocalFile (up_filename upload)), w)
      | Some fileInfo \<Rightarrow>
          (case uploadToS3 env (up_upload_url upload) (fi_data fileInfo) w of
             (Inl e, w1) \<Rightarrow> (Inl e, w1)
           | (Inr _, w1) \<Rightarrow> upload_all env fileInfos rest w1))"

record push_args =
  pa_model :: string
  pa_files :: "string list"
  pa_description :: "string option"
  pa_visibility :: "string option"

definition finalize_line :: "env \<Rightarrow> push_finalize_file \<Rightarrow> string" where
  "finalize_line env f =
     ''  '' @ ff_filename f @ '' '' @ em_dash @ '' '' @ formatBytes env (ff_size_bytes f) @
     '' (sha256:'' @ str_slice env (ff_sha256 f) 0 12 @ ellipsis @ '')''"

definition push_report :: "env \<Rightarrow> model_ref \<Rightarrow> push_finalize_response \<Rightarrow> string" where
  "push_report env ref finalRes =
     join_lines
       ([''Pushed '' @ org ref @ ''/'' @ model ref @ '':'' @ tag ref,
         ''Version: '' @ fr_version_id finalRes,
         ''Digest: '' @ fr_sha256_digest finalRes,
         ''Total: '' @ formatBytes env (fr_total_size_bytes finalRes),
         []] @ map (finalize_line env) (fr_files finalRes))"

definition init_body :: "model_ref \<Rightarrow> push_args \<Rightarrow> fileInfo list \<Rightarrow> push_init_body" where
  "init_body ref args fileInfos =
     \<lparr>ib_tag = tag ref, ib_type = None,
      ib_description = pa_description args,
      ib_visibility = pa_visibility args,
      ib_files = map descriptor fileInfos\<rparr>"

text \<open>
  The handler after the tag check: hash every file, then init, upload, finalize.
\<close>

definition push_transfer :: "env \<Rightarrow> client \<Rightarrow> model_ref \<Rightarrow> push_args \<Rightarrow> world \<Rightarrow>
    (error + string) \<times> world" where
  "push_transfer env c ref args w =
     await (readInfos env (pa_files args))
       (\<lambda>fileInfos.
          await (pushInit env c (org ref) (model ref) (init_body ref args fileInfos))
            (\<lambda>initRes.
               await (upload_all env fileInfos (pi_uploads initRes))
                 (\<lambda>_. await (pushFinalize env c (org ref) (model ref)
                                \<lparr>fb_push_id = pi_push_id initRes, fb_tag = tag ref\<rparr>)
                         (\<lambda>finalRes w4. (Inr (push_report env ref finalRes), w4))))) w"

definition push :: "env \<Rightarrow> client \<Rightarrow> push_args \<Rightarrow> world \<Rightarrow> (error + string) \<times> world" where
  "push env c args w =
     (case parseModelRef (pa_model args) of
        Inl e \<Rightarrow> (Inl e, w)
      | Inr ref \<Rightarrow>
          if tag ref = ''latest'' \<and> \<not> includes_char (pa_model args) CHR '':''
          then (Inl ExplicitTagRequired, w)
          else push_transfer env c ref args w)"

section \<open>The update tool\<close>

record update_body =
  ub_description :: "string option"
  ub_visibility :: "string option"
  ub_framework :: "string option"
  ub_license :: "string option"
  ub_tags :: "string list option"

record update_args =
  ua_model :: string
  ua_description :: "string option"
  ua_visibility :: "string option"
  ua_framework :: "string option"
  ua_license :: "string option"
  ua_tags :: "string list option"

text \<open>\<^verbatim>\<open>Object.keys(body).length\<close>: the number of fields that were set.\<close>

definition body_keys :: "update_body \<Rightarrow> nat" where
  "body_keys b =
     (if ub_description b \<noteq> None then 1 else 0) + (if ub_visibility b \<noteq> None then 1 else 0) +
     (if ub_framework b \<noteq> None then 1 else 0) + (if ub_license b \<noteq> None then 1 else 0) +
     (if ub_tags b \<noteq> None then 1 else 0)"

text \<open>
  The handler of \<^verbatim>\<open>update\<close>. The client method \<^verbatim>\<open>updateModel\<close> is a parameter: it
  takes the organisation, the name and the body and answers with the \<^verbatim>\<open>message\<close>
  field of the registry's response.
\<close>

definition update :: "(string \<Rightarrow> string \<Rightarrow> update_body \<Rightarrow> world \<Rightarrow> (error + string) \<times> world) \<Rightarrow>
    update_args \<Rightarrow> world \<Rightarrow> (error + string) \<times> world" where
  "update updateModel args w =
     (let parts = split_on CHR ''/'' (ua_model args)
      in if length parts \<noteq> 2 \<or> parts ! 0 = [] \<or> parts ! 1 = []
         then (Inl (InvalidOrgModel (ua_model args)), w)
         else
           (let og = parts ! 0; name = parts ! 1;
                b = \<lparr>ub_description = ua_description args, ub_visibility = ua_visibility args,
                     ub_framework = ua_framework args, ub_license = ua_license args,
                     ub_tags = ua_tags args\<rparr>
            in if body_keys b = 0
               then (Inr (''No fields to update. Provide at least one of: '' @
                          ''description, visibility, framework, license, tags.''), w)
               else await (updateModel og name b)
                      (\<lambda>message w1. (Inr (''Updated '' @ og @ ''/'' @ name @ '': '' @ message), w1))
                      w))"

section \<open>Vocabulary for the statements\<close>

text \<open>The bytes a download URL serves: the body of a 2xx answer.\<close>

definition served :: "env \<Rightarrow> pull_file \<Rightarrow> bytes option" where
  "served env file =
     (case fetch_download env (pf_download_url file) of
        None \<Rightarrow> None
      | Some res \<Rightarrow> if ok res then payload res else None)"

text \<open>
  A file of the plan is good for the bytes \<open>b\<close>: they are what its URL serves, they
  hash to the digest the plan declares, and the destination path can be written.
\<close>

definition verified :: "env \<Rightarrow> string \<Rightarrow> pull_file \<Rightarrow> bytes \<Rightarrow> bool" where
  "verified env destDir file b =
     (served env file = Some b \<and> sha256 env b = pf_sha256 file \<and>
      writeFile_ok env (join env destDir (pf_filename file)))"

definition pull_events :: "env \<Rightarrow> string \<Rightarrow> pull_file \<times> bytes \<Rightarrow> event list" where
  "pull_events env destDir fb =
     [Download (pf_download_url (fst fb)),
      WriteFile (join env destDir (pf_filename (fst fb))) (snd fb)]"

definition written :: "env \<Rightarrow> string \<Rightarrow> (pull_file \<times> bytes) list \<Rightarrow>
    (string \<Rightarrow> bytes option) \<Rightarrow> (string \<Rightarrow> bytes option)" where
  "written env destDir fbs disk =
     fold (\<lambda>fb d. d(join env destDir (pf_filename (fst fb)) \<mapsto> snd fb)) fbs disk"

text \<open>The blob store accepts the bytes put to a URL: the PUT resolves with a 2xx answer.\<close>

definition s3_ok :: "env \<Rightarrow> string \<Rightarrow> bytes \<Rightarrow> bool" where
  "s3_ok env u data = (case fetch_s3 env u data of None \<Rightarrow> False | Some res \<Rightarrow> ok res)"

text \<open>The local record the upload loop picks for a target.\<close>

definition matched :: "fileInfo list \<Rightarrow> push_init_upload \<Rightarrow> fileInfo \<Rightarrow> bool" where
  "matched fileInfos upload f =
     (find (\<lambda>g. fi_filename g = up_filename upload) fileInfos = Some f)"

definition uploaded :: "env \<Rightarrow> fileInfo list \<Rightarrow> push_init_upload \<Rightarrow> fileInfo \<Rightarrow> bool" where
  "uploaded env fileInfos upload f =
     (matched fileInfos upload f \<and> s3_ok env (up_upload_url upload) (fi_data f))"

text \<open>
  Every read and every \<^verbatim>\<open>stat\<close> of the input paths succeeds: the records, in input
  order, or \<open>None\<close> when a path cannot be read or measured.
\<close>

fun local_infos :: "env \<Rightarrow> (string \<Rightarrow> bytes option) \<Rightarrow> string list \<Rightarrow> fileInfo list option" where
  "local_infos env disk [] = Some []"
| "local_infos env disk (p # ps) =
     (case disk p of
        None \<Rightarrow> None
      | Some data \<Rightarrow>
          (case stat_size env p of
             None \<Rightarrow> None
           | Some sz \<Rightarrow>
               (case local_infos env disk ps of
                  None \<Rightarrow> None
                | Some infos \<Rightarrow> Some (mk_fileInfo env p data sz # infos))))"

text \<open>
  The file-system calls of the read phase when every read succeeds: the reads in
  input order, then the \<^verbatim>\<open>stat\<close> calls in the order the reads are done.
\<close>

definition read_events :: "env \<Rightarrow> (string \<Rightarrow> bytes option) \<Rightarrow> string list \<Rightarrow> event list" where
  "read_events env disk files =
     map ReadFile files @ map (\<lambda>tp. Stat (snd tp)) (stat_calls env disk files)"

text \<open>The calls that go over the network.\<close>

fun is_network :: "event \<Rightarrow> bool" where
  "is_network (Http r) = True"
| "is_network (Download u) = True"
| "is_network (S3Put u h d) = True"
| "is_network (ReadFile p) = False"
| "is_network (Stat p) = False"
| "is_network (Mkdir p) = False"
| "is_network (WriteFile p d) = False"




definition put_event :: "env \<Rightarrow> push_init_upload \<times> fileInfo \<Rightarrow> event" where
  "put_event env uf = s3_put_event env (up_upload_url (fst uf)) (fi_data (snd uf))"

definition init_request :: "env \<Rightarrow> client \<Rightarrow> model_ref \<Rightarrow> push_init_body \<Rightarrow> http_request" where
  "init_request env c ref b =
     build_request c (push_init_path env (org ref) (model ref))
       (Some (json_post (PushInitBody b)))"

definition finalize_request :: "env \<Rightarrow> client \<Rightarrow> model_ref \<Rightarrow> string \<Rightarrow> http_request" where
  "finalize_request env c ref push_id =
     build_request c (push_finalize_path env (org ref) (model ref))
       (Some (json_post (PushFinalizeBody \<lparr>fb_push_id = push_id, fb_tag = tag ref\<rparr>)))"

definition pull_request :: "env \<Rightarrow> client \<Rightarrow> model_ref \<Rightarrow> http_request" where
  "pull_request env c ref =
     build_request c (pull_path env (org ref) (model ref) (tag ref)) None"

text \<open>A 2xx answer carrying \<open>v\<close>.\<close>

definition answers :: "'a response option \<Rightarrow> 'a \<Rightarrow> bool" where
  "answers r v = (case r of None \<Rightarrow> False | Some res \<Rightarrow> ok res \<and> payload res = Some v)"

fun is_finalize :: "event \<Rightarrow> bool" where
  "is_finalize (Http r) = (case body r of PushFinalizeBody _ \<Rightarrow> True | _ \<Rightarrow> False)"
| "is_finalize _ = False"

section \<open>Example inputs\<close>

definition ok_response :: "'a \<Rightarrow> 'a response" where
  "ok_response v =
     \<lparr>ok = True, status = 200, statusText = ''OK'', json_error = None, payload = Some v\<rparr>"

definition failed_response :: "nat \<Rightarrow> string \<Rightarrow> 'a response" where
  "failed_response st txt =
     \<lparr>ok = False, status = st, statusText = txt, json_error = None, payload = None\<rparr>"

definition ref0 :: model_ref where
  "ref0 = \<lparr>org = ''acme'', model = ''resnet'', tag = ''v2''\<rparr>"

definition file_a :: pull_file where
  "file_a = \<lparr>pf_filename = ''a.bin'', pf_download_url = ''https://cdn/a'', pf_sha256 = ''xxx'',
             pf_size_bytes = 3\<rparr>"

definition file_b :: pull_file where
  "file_b = \<lparr>pf_filename = ''b.bin'', pf_download_url = ''https://cdn/b'', pf_sha256 = ''xx'',
             pf_size_bytes = 1\<rparr>"

definition file_c :: pull_file where
  "file_c = \<lparr>pf_filename = ''c.bin'', pf_download_url = ''https://cdn/c'', pf_sha256 = ''x'',
             pf_size_bytes = 1\<rparr>"

definition plan_of :: "pull_file list \<Rightarrow> pull_response" where
  "plan_of files =
     \<lparr>pr_org = ''acme'', pr_model = ''resnet'', pr_tag = ''v2'', pr_version_id = ''ver1'',
      pr_sha256_digest = ''dd'', pr_total_size_bytes = 5, pr_files = files\<rparr>"

definition info_a :: fileInfo where
  "info_a = \<lparr>fi_path = ''/m/a.bin'', fi_filename = ''a.bin'', fi_size_bytes = 3,
             fi_sha256 = ''xxx'', fi_data = [1, 2, 3]\<rparr>"

definition info_b :: fileInfo where
  "info_b = \<lparr>fi_path = ''/m/b.bin'', fi_filename = ''b.bin'', fi_size_bytes = 9,
             fi_sha256 = ''xx'', fi_data = [4, 5]\<rparr>"


definition target_a :: push_init_upload where
  "target_a = \<lparr>up_filename = ''a.bin'', up_s3_key = ''k1'', up_upload_url = ''https://s3/1''\<rparr>"

definition target_b :: push_init_upload where
  "target_b = \<lparr>up_filename = ''b.bin'', up_s3_key = ''k2'', up_upload_url = ''https://s3/2''\<rparr>"

definition target_bad :: push_init_upload where
  "target_bad = \<lparr>up_filename = ''b.bin'', up_s3_key = ''k2'', up_upload_url = ''https://s3/bad''\<rparr>"

definition target_a2 :: push_init_upload where
  "target_a2 = \<lparr>up_filename = ''a.bin'', up_s3_key = ''k3'', up_upload_url = ''https://s3/3''\<rparr>"

definition session_of :: "push_init_upload list \<Rightarrow> push_init_response" where
  "session_of ups = \<lparr>pi_push_id = ''push1'', pi_uploads = ups\<rparr>"

definition result0 :: push_finalize_response where
  "result0 =
     \<lparr>fr_version_id = ''ver2'', fr_tag = ''v2'', fr_total_size_bytes = 5,
      fr_sha256_digest = ''ee'', fr_files = []\<rparr>"

text \<open>
  An environment for the examples: the digest of a buffer is one \<^verbatim>\<open>x\<close> per byte, the
  download of \<^verbatim>\<open>b.bin\<close> serves one byte where the plan declares the digest of two,
  and the blob store refuses the URL \<^verbatim>\<open>https://s3/bad\<close>. The read of \<^verbatim>\<open>/m/a.bin\<close> takes
  longest, and \<^verbatim>\<open>stat\<close> reports 9 bytes for \<^verbatim>\<open>/m/b.bin\<close>, of which 2 are read. The
  registry answers a pull with the plan \<open>files\<close> and a push init with the upload
  targets \<open>ups\<close>.
\<close>

definition example_env :: "pull_file list \<Rightarrow> push_init_upload list \<Rightarrow> env" where
  "example_env files ups =
     \<lparr>sha256 = (\<lambda>data. replicate (length data) CHR ''x''),
      encodeURIComponent = (\<lambda>s. s),
      qs_toString = (\<lambda>kvs. concat (map (\<lambda>kv. fst kv @ ''='' @ snd kv) kvs)),
      String_of_number = (\<lambda>n. replicate n CHR ''1''),
      formatBytes = (\<lambda>n. replicate n CHR ''1'' @ '' B''),
      str_slice = (\<lambda>s i j. take (j - i) (drop i s)),
      join = (\<lambda>d f. d @ ''/'' @ f),
      resolve = (\<lambda>ps. concat (map (\<lambda>p. ''/'' @ p) ps)),
      mkdir_ok = (\<lambda>p. True),
      writeFile_ok = (\<lambda>p. True),
      stat_size = (\<lambda>p.
        if p = ''/m/a.bin'' then Some 3
        else if p = ''/m/b.bin'' then Some 9
        else if p = ''/n/a.bin'' then Some 1
        else None),
      read_done = (\<lambda>i p. if p = ''/m/a.bin'' then 5 else 2),
      stat_time = (\<lambda>i p. 1),
      fetch_download = (\<lambda>u.
        if u = ''https://cdn/a'' then Some (ok_response [1, 2, 3])
        else if u = ''https://cdn/b'' then Some (ok_response [4])
        else if u = ''https://cdn/c'' then Some (ok_response [5])
        else None),
      fetch_s3 = (\<lambda>u data.
        if u = ''https://s3/bad'' then Some (failed_response 500 ''Internal Server Error'')
        else Some (ok_response ())),
      api_models = (\<lambda>req. Some (ok_response [])),
      api_orgs = (\<lambda>req. Some (ok_response [])),
      api_pull = (\<lambda>req. Some (ok_response (plan_of files))),
      api_push_init = (\<lambda>req. Some (ok_response (session_of ups))),
      api_push_finalize = (\<lambda>req. Some (ok_response result0))\<rparr>"

definition env0 :: env where
  "env0 = example_env [file_a, file_b, file_c] [target_a, target_b]"

definition client0 :: client where
  "client0 = \<lparr>baseUrl = ''https://api.pullweights.com'', apiKey = Some ''pw_key''\<rparr>"

definition client_no_key :: client where
  "client_no_key = \<lparr>baseUrl = ''https://api.pullweights.com'', apiKey = None\<rparr>"

definition world0 :: world where
  "world0 =
     \<lparr>fs = (\<lambda>p. if p = ''/m/a.bin'' then Some [1, 2, 3]
                 else if p = ''/m/b.bin'' then Some [4, 5]
                 else if p = ''/n/a.bin'' then Some [7]
                 else None),
      trace = []\<rparr>"

definition push_args0 :: push_args where
  "push_args0 =
     \<lparr>pa_model = ''acme/resnet:v2'', pa_files = [''/m/a.bin'', ''/m/b.bin''],
      pa_description = None, pa_visibility = None\<rparr>"

definition update_args0 :: update_args where
  "update_args0 =
     \<lparr>ua_model = ''acme/resnet'', ua_description = None, ua_visibility = None,
      ua_framework = None, ua_license = None, ua_tags = None\<rparr>"

definition updateModel0 :: "string \<Rightarrow> string \<Rightarrow> update_body \<Rightarrow> world \<Rightarrow> (error + string) \<times> world" where
  "updateModel0 og name b w =
     (Inr ''Model updated'',
      log_event (Http \<lparr>url = ''https://api.pullweights.com/v1/models/'' @ og @ ''/'' @ name,
                       http_method = ''PATCH'', headers = [], body = NoBody\<rparr>) w)"

section \<open>Facts about splitting\<close>

lemma split_on_not_Nil: "split_on c s \<noteq> []"
  by (induction s) (auto split: list.splits)

lemma split_on_absent: "c \<notin> set s \<Longrightarrow> split_on c s = [s]"
  by (induction s) auto

lemma split_on_append_sep:
  "c \<notin> set a \<Longrightarrow> split_on c (a @ c # b) = a # split_on c b"
  by (induction a) auto

lemma length_split_on:
  "length (split_on c s) = Suc (length (filter (\<lambda>x. x = c) s))"
proof (induction s)
  case Nil
  show ?case by simp
next
  case (Cons x xs)
  then show ?case
    by (cases "split_on c xs") auto
qed

lemma hd_split_on: "hd (split_on c s) = takeWhile (\<lambda>x. x \<noteq> c) s"
  by (induction s) (auto split: list.splits simp: split_on_not_Nil)

lemma last_split_on_no_sep: "c \<notin> set (last (split_on c s))"
  by (induction s) (auto split: list.splits simp: split_on_not_Nil)

lemma split_on_eq_empty_piece: "split_on c s = [[]] \<longleftrightarrow> s = []"
  by (cases s) (auto split: list.splits simp: split_on_not_Nil)

lemma last_split_on_Nil_iff:
  "last (split_on c s) = [] \<longleftrightarrow> (s = [] \<or> last s = c)"
proof (induction s)
  case Nil
  show ?case by simp
next
  case (Cons x xs)
  show ?case
  proof (cases "split_on c xs")
    case Nil
    then show ?thesis by (simp add: split_on_not_Nil)
  next
    case (Cons p ps)
    show ?thesis
    proof (cases ps)
      case Nil
      with Cons Cons.IH show ?thesis
        using split_on_eq_empty_piece [of c xs] by (cases "xs = []") auto
    next
      case (Cons q qs)
      with \<open>split_on c xs = p # ps\<close> Cons.IH show ?thesis
        by (cases "xs = []") auto
    qed
  qed
qed

lemma split_on_two_iff:
  "(length (split_on CHR ''/'' s) = 2 \<and> split_on CHR ''/'' s ! 0 \<noteq> [] \<and>
    split_on CHR ''/'' s ! 1 \<noteq> []) \<longleftrightarrow> one_slash_two_segments s"
proof -
  let ?ps = "split_on CHR ''/'' s"
  have hd0: "?ps ! 0 = takeWhile (\<lambda>x. x \<noteq> CHR ''/'') s"
    using hd_split_on [of "CHR ''/''" s] split_on_not_Nil [of "CHR ''/''" s]
    by (simp add: hd_conv_nth)
  have first: "takeWhile (\<lambda>x. x \<noteq> CHR ''/'') s \<noteq> [] \<longleftrightarrow> (s \<noteq> [] \<and> hd s \<noteq> CHR ''/'')"
    by (cases s) auto
  have last1: "length ?ps = 2 \<Longrightarrow> ?ps ! 1 = last ?ps"
    by (cases ?ps) (auto simp: last_conv_nth)
  show ?thesis
    unfolding one_slash_two_segments_def
    using hd0 first last1 last_split_on_Nil_iff [of "CHR ''/''" s]
      length_split_on [of "CHR ''/''" s]
    by auto
qed

section \<open>Parsing model references\<close>

lemma parse_untagged:
  assumes "og \<noteq> []" "nm \<noteq> []" "CHR ''/'' \<notin> set og" "CHR '':'' \<notin> set og"
    "CHR ''/'' \<notin> set nm" "CHR '':'' \<notin> set nm"
  shows "parseModelRef (og @ ''/'' @ nm) = Inr \<lparr>org = og, model = nm, tag = ''latest''\<rparr>"
proof -
  have c: "split_on CHR '':'' (og @ ''/'' @ nm) = [og @ ''/'' @ nm]"
    using assms by (intro split_on_absent) simp
  have s: "split_on CHR ''/'' (og @ ''/'' @ nm) = [og, nm]"
    using assms split_on_append_sep [of "CHR ''/''" og nm] by (simp add: split_on_absent)
  show ?thesis
    unfolding parseModelRef_def c using s assms by simp
qed

lemma parse_tagged:
  assumes "og \<noteq> []" "nm \<noteq> []" "CHR ''/'' \<notin> set og" "CHR '':'' \<notin> set og"
    "CHR ''/'' \<notin> set nm" "CHR '':'' \<notin> set nm"
  shows "parseModelRef (og @ ''/'' @ nm @ '':'' @ tg) =
     Inr \<lparr>org = og, model = nm, tag = hd (split_on CHR '':'' tg)\<rparr>"
proof -
  have "split_on CHR '':'' ((og @ ''/'' @ nm) @ CHR '':'' # tg) =
      (og @ ''/'' @ nm) # split_on CHR '':'' tg"
    using assms by (intro split_on_append_sep) simp
  then have c: "split_on CHR '':'' (og @ ''/'' @ nm @ '':'' @ tg) =
      (og @ ''/'' @ nm) # split_on CHR '':'' tg"
    by simp
  have s: "split_on CHR ''/'' (og @ ''/'' @ nm) = [og, nm]"
    using assms split_on_append_sep [of "CHR ''/''" og nm] by (simp add: split_on_absent)
  show ?thesis
    unfolding parseModelRef_def c using s assms
    by (cases "split_on CHR '':'' tg") (simp_all add: split_on_not_Nil)
qed

lemma parse_rejects:
  assumes "\<not> one_slash_two_segments (takeWhile (\<lambda>x. x \<noteq> CHR '':'') ref)"
  shows "parseModelRef ref = Inl (InvalidModelRef ref)"
  using assms split_on_two_iff [of "takeWhile (\<lambda>x. x \<noteq> CHR '':'') ref"]
    hd_split_on [of "CHR '':''" ref]
  unfolding parseModelRef_def
  by (cases "split_on CHR '':'' ref") (auto simp: Let_def split_on_not_Nil)

text \<open>
  C5, as stated, fails: the reference \<^verbatim>\<open>a/b:c/d\<close> holds two slashes, so it is a
  string without exactly one slash separating two non-empty segments, and
  parsing it returns a reference (with tag \<^verbatim>\<open>c/d\<close>) instead of failing.
\<close>

theorem parse_two_slashes_accepted:
  "\<not> one_slash_two_segments ''a/b:c/d'' \<and>
   parseModelRef ''a/b:c/d'' = Inr \<lparr>org = ''a'', model = ''b'', tag = ''c/d''\<rparr>"
  by (simp add: one_slash_two_segments_def parseModelRef_def)

text \<open>
  C5, amended: parsing \<^verbatim>\<open>acme/resnet\<close> yields organisation \<^verbatim>\<open>acme\<close>, name \<^verbatim>\<open>resnet\<close>
  and tag \<^verbatim>\<open>latest\<close>; parsing \<^verbatim>\<open>acme/resnet:v2\<close> yields tag \<^verbatim>\<open>v2\<close>; and parsing any
  string whose part before the first colon is not exactly one slash separating
  two non-empty segments fails with the invalid-reference error naming the string.
\<close>

theorem parseModelRef_examples_and_rejection:
  "parseModelRef ''acme/resnet'' = Inr \<lparr>org = ''acme'', model = ''resnet'', tag = ''latest''\<rparr> \<and>
   parseModelRef ''acme/resnet:v2'' = Inr \<lparr>org = ''acme'', model = ''resnet'', tag = ''v2''\<rparr> \<and>
   (\<not> one_slash_two_segments (takeWhile (\<lambda>x. x \<noteq> CHR '':'') ref) \<longrightarrow>
      parseModelRef ref = Inl (InvalidModelRef ref))"
proof -
  have "parseModelRef ''acme/resnet'' =
      Inr \<lparr>org = ''acme'', model = ''resnet'', tag = ''latest''\<rparr>"
    by (simp add: parseModelRef_def)
  moreover have "parseModelRef ''acme/resnet:v2'' =
      Inr \<lparr>org = ''acme'', model = ''resnet'', tag = ''v2''\<rparr>"
    by (simp add: parseModelRef_def)
  ultimately show ?thesis
    using parse_rejects [of ref] by blast
qed

theorem parseModelRef_rejects_acme:
  "\<not> one_slash_two_segments (takeWhile (\<lambda>x. x \<noteq> CHR '':'') ''acme'') \<and>
   parseModelRef ''acme'' = Inl (InvalidModelRef ''acme'')"
  using parseModelRef_examples_and_rejection [of "''acme''"]
  by (simp add: one_slash_two_segments_def)

text \<open>
  C6, as stated, fails. The string \<^verbatim>\<open>a/b:c:d\<close> holds exactly one slash between two
  non-empty segments and reads as organisation \<^verbatim>\<open>a\<close>, name \<^verbatim>\<open>b\<close> and tag \<^verbatim>\<open>c:d\<close>; the
  parser returns tag \<^verbatim>\<open>c\<close>, and the parts put together again are \<^verbatim>\<open>a/b:c\<close>, neither the
  explicit tag nor \<^verbatim>\<open>latest\<close>. The string \<^verbatim>\<open>a:b/c\<close> holds exactly one slash between
  two non-empty segments too, and is rejected.
\<close>

theorem parse_second_colon_cuts_tag:
  "one_slash_two_segments ''a/b:c:d'' \<and>
   parseModelRef ''a/b:c:d'' = Inr \<lparr>org = ''a'', model = ''b'', tag = ''c''\<rparr> \<and>
   map_sum id ref_string (parseModelRef ''a/b:c:d'') = Inr ''a/b:c'' \<and>
   one_slash_two_segments ''a:b/c'' \<and>
   parseModelRef ''a:b/c'' = Inl (InvalidModelRef ''a:b/c'')"
  by (simp add: one_slash_two_segments_def parseModelRef_def ref_string_def)

text \<open>
  C6, amended: for an organisation and a name that are non-empty and hold neither
  slash nor colon, and a tag that holds no colon (so that a colon occurs only as
  the separator before the tag), parsing \<^verbatim>\<open>org/name\<close> gives that organisation and name
  with tag \<^verbatim>\<open>latest\<close>, parsing \<^verbatim>\<open>org/name:tag\<close> gives them with the explicit tag, and
  putting the parsed parts together again as \<^verbatim>\<open>org/name:tag\<close> gives the input (with
  \<^verbatim>\<open>:latest\<close> added when the tag was omitted).
\<close>

theorem parse_then_reconstruct:
  assumes "og \<noteq> []" and "nm \<noteq> []"
    and "CHR ''/'' \<notin> set og" and "CHR '':'' \<notin> set og"
    and "CHR ''/'' \<notin> set nm" and "CHR '':'' \<notin> set nm"
    and "CHR '':'' \<notin> set tg"
  shows "parseModelRef (og @ ''/'' @ nm) = Inr \<lparr>org = og, model = nm, tag = ''latest''\<rparr> \<and>
         map_sum id ref_string (parseModelRef (og @ ''/'' @ nm)) =
           Inr (og @ ''/'' @ nm @ '':latest'') \<and>
         parseModelRef (og @ ''/'' @ nm @ '':'' @ tg) = Inr \<lparr>org = og, model = nm, tag = tg\<rparr> \<and>
         map_sum id ref_string (parseModelRef (og @ ''/'' @ nm @ '':'' @ tg)) =
           Inr (og @ ''/'' @ nm @ '':'' @ tg)"
proof -
  have u: "parseModelRef (og @ ''/'' @ nm) = Inr \<lparr>org = og, model = nm, tag = ''latest''\<rparr>"
    using assms by (intro parse_untagged)
  have "hd (split_on CHR '':'' tg) = tg"
    using assms(7) by (simp add: split_on_absent)
  with assms have t: "parseModelRef (og @ ''/'' @ nm @ '':'' @ tg) =
      Inr \<lparr>org = og, model = nm, tag = tg\<rparr>"
    using parse_tagged [of og nm tg] by simp
  show ?thesis
    unfolding u t by (simp add: ref_string_def)
qed

theorem parse_then_reconstruct_acme:
  "''acme'' \<noteq> [] \<and> ''resnet'' \<noteq> [] \<and>
   CHR ''/'' \<notin> set ''acme'' \<and> CHR '':'' \<notin> set ''acme'' \<and>
   CHR ''/'' \<notin> set ''resnet'' \<and> CHR '':'' \<notin> set ''resnet'' \<and> CHR '':'' \<notin> set ''v2'' \<and>
   parseModelRef ''acme/resnet'' = Inr \<lparr>org = ''acme'', model = ''resnet'', tag = ''latest''\<rparr> \<and>
   map_sum id ref_string (parseModelRef ''acme/resnet'') = Inr ''acme/resnet:latest'' \<and>
   parseModelRef ''acme/resnet:v2'' = Inr \<lparr>org = ''acme'', model = ''resnet'', tag = ''v2''\<rparr> \<and>
   map_sum id ref_string (parseModelRef ''acme/resnet:v2'') = Inr ''acme/resnet:v2''"
  using parse_then_reconstruct [of "''acme''" "''resnet''" "''v2''"]
  by (simp add: ref_string_def)

section \<open>The registry client: which calls need a key\<close>

lemma request_logs:
  "snd (request net c path init w) = log_event (Http (build_request c path init)) w"
  by (simp add: request_def Let_def split: option.splits)

lemma request_not_auth: "fst (request net c path init w) \<noteq> Inl AuthRequired"
  by (simp add: request_def Let_def split: option.splits)

lemma request_answers:
  "answers (net (build_request c path init)) v \<Longrightarrow>
   request net c path init w = (Inr v, log_event (Http (build_request c path init)) w)"
  by (auto simp: request_def answers_def Let_def split: option.splits)

text \<open>
  C7: when no API key is configured, \<^verbatim>\<open>listOrgs\<close> (and the \<^verbatim>\<open>ls\<close> tool without an
  organisation) fails with the authentication error and leaves the world as it
  was, so no request is sent. \<^verbatim>\<open>listModels\<close> (and \<^verbatim>\<open>ls\<close> with an organisation),
  \<^verbatim>\<open>search\<close>, \<^verbatim>\<open>getManifest\<close> and \<^verbatim>\<open>listTags\<close> send exactly their one request whatever
  the key is, and never answer with the authentication error.
\<close>

theorem listOrgs_checks_key_first:
  "(\<not> truthy (apiKey c) \<longrightarrow>
      listOrgs env net_orgs c w = (Inl AuthRequired, w) \<and>
      ls env c None w = (Inl AuthRequired, w)) \<and>
   snd (listModels env net_models c og w) =
     log_event (Http (build_request c (''/v1/models/'' @ encodeURIComponent env og) None)) w \<and>
   fst (listModels env net_models c og w) \<noteq> Inl AuthRequired \<and>
   (og \<noteq> [] \<longrightarrow>
      snd (ls env c (Some og) w) =
        log_event (Http (build_request c (''/v1/models/'' @ encodeURIComponent env og) None)) w \<and>
      fst (ls env c (Some og) w) \<noteq> Inl AuthRequired) \<and>
   snd (search env num_truthy num_String net_search c params w) =
     log_event (Http (build_request c (search_path env num_truthy num_String params) None)) w \<and>
   fst (search env num_truthy num_String net_search c params w) \<noteq> Inl AuthRequired \<and>
   snd (getManifest env net_manifest c og md tg w) =
     log_event (Http (build_request c
       (''/v1/models/'' @ encodeURIComponent env og @ ''/'' @ encodeURIComponent env md @
        ''/manifests/'' @ encodeURIComponent env tg) None)) w \<and>
   fst (getManifest env net_manifest c og md tg w) \<noteq> Inl AuthRequired \<and>
   snd (listTags env net_tags c og md w) =
     log_event (Http (build_request c
       (''/v1/models/'' @ encodeURIComponent env og @ ''/'' @ encodeURIComponent env md @
        ''/tags'') None)) w \<and>
   fst (listTags env net_tags c og md w) \<noteq> Inl AuthRequired"
proof -
  have orgs: "\<not> truthy (apiKey c) \<longrightarrow>
      listOrgs env net_orgs c w = (Inl AuthRequired, w) \<and> ls env c None w = (Inl AuthRequired, w)"
    by (simp add: listOrgs_def ls_def await_def requireAuth_def truthy_def)
  have lsm: "og \<noteq> [] \<longrightarrow>
      snd (ls env c (Some og) w) =
        log_event (Http (build_request c (''/v1/models/'' @ encodeURIComponent env og) None)) w \<and>
      fst (ls env c (Some og) w) \<noteq> Inl AuthRequired"
    using request_logs [of "api_models env" c "''/v1/models/'' @ encodeURIComponent env og" None w]
      request_not_auth [of "api_models env" c "''/v1/models/'' @ encodeURIComponent env og" None w]
    by (cases "request (api_models env) c (''/v1/models/'' @ encodeURIComponent env og) None w")
       (auto simp: ls_def truthy_def or_else_def await_def listModels_def split: sum.splits)
  show ?thesis
    using orgs lsm
    by (simp add: listModels_def search_def getManifest_def listTags_def
        request_logs request_not_auth)
qed

theorem listOrgs_checks_key_first_no_key:
  "\<not> truthy (apiKey client_no_key) \<and>
   listOrgs env0 (api_orgs env0) client_no_key world0 = (Inl AuthRequired, world0) \<and>
   ls env0 client_no_key None world0 = (Inl AuthRequired, world0) \<and>
   ''acme'' \<noteq> [] \<and>
   trace (snd (ls env0 client_no_key (Some ''acme'') world0)) =
     [Http \<lparr>url = ''https://api.pullweights.com/v1/models/acme'', http_method = ''GET'',
            headers = [(''User-Agent'', ''pullweights-mcp/0.1.0''), (''Accept'', ''application/json'')],
            body = NoBody\<rparr>] \<and>
   fst (ls env0 client_no_key (Some ''acme'') world0) \<noteq> Inl AuthRequired"
  using listOrgs_checks_key_first [where c = client_no_key and env = env0
      and net_orgs = "api_orgs env0" and w = world0 and net_models = "api_models env0"
      and og = "''acme''" and num_truthy = "\<lambda>n::nat. n \<noteq> 0"
      and num_String = "String_of_number env0" and net_search = "api_models env0"
      and params = "\<lparr>sp_q = Some ''bert'', sp_type = None, sp_per_page = Some 20,
        sp_framework = None, sp_sort = None, sp_page = None\<rparr>"
      and net_manifest = "api_models env0" and md = "''resnet''" and tg = "''v2''"
      and net_tags = "api_models env0"]
  by (simp add: client_no_key_def truthy_def env0_def example_env_def world0_def log_event_def
      build_request_def client_headers_def USER_AGENT_def spread_def)

section \<open>Facts about the examples\<close>

lemma example_env_simps:
  "sha256 (example_env fl ups) data = replicate (length data) CHR ''x''"
  "encodeURIComponent (example_env fl ups) s = s"
  "String_of_number (example_env fl ups) n = replicate n CHR ''1''"
  "formatBytes (example_env fl ups) n = replicate n CHR ''1'' @ '' B''"
  "str_slice (example_env fl ups) s i j = take (j - i) (drop i s)"
  "join (example_env fl ups) d f = d @ ''/'' @ f"
  "mkdir_ok (example_env fl ups) p"
  "writeFile_ok (example_env fl ups) p"
  "stat_size (example_env fl ups) p =
     (if p = ''/m/a.bin'' then Some 3
      else if p = ''/m/b.bin'' then Some 9
      else if p = ''/n/a.bin'' then Some 1
      else None)"
  "read_done (example_env fl ups) i p = (if p = ''/m/a.bin'' then 5 else 2)"
  "stat_time (example_env fl ups) i p = 1"
  "fetch_download (example_env fl ups) u =
     (if u = ''https://cdn/a'' then Some (ok_response [1, 2, 3])
      else if u = ''https://cdn/b'' then Some (ok_response [4])
      else if u = ''https://cdn/c'' then Some (ok_response [5])
      else None)"
  "fetch_s3 (example_env fl ups) u data =
     (if u = ''https://s3/bad'' then Some (failed_response 500 ''Internal Server Error'')
      else Some (ok_response ()))"
  "api_pull (example_env fl ups) req = Some (ok_response (plan_of fl))"
  "api_push_init (example_env fl ups) req = Some (ok_response (session_of ups))"
  "api_push_finalize (example_env fl ups) req = Some (ok_response result0)"
  by (simp_all add: example_env_def)

lemma example_requests:
  "pull_request (example_env fl ups) = pull_request env0"
  "init_request (example_env fl ups) = init_request env0"
  "finalize_request (example_env fl ups) = finalize_request env0"
  "s3_put_event (example_env fl ups) = s3_put_event env0"
  unfolding env0_def
  by (simp_all add: fun_eq_iff pull_request_def init_request_def finalize_request_def
      s3_put_event_def pull_path_def push_init_path_def push_finalize_path_def
      example_env_simps)

lemma example_lines:
  "finalize_line (example_env fl ups) = finalize_line env0"
  "downloaded_line (example_env fl ups) = downloaded_line env0"
  unfolding env0_def
  by (simp_all add: fun_eq_iff finalize_line_def downloaded_line_def example_env_simps)

lemma example_reports:
  "push_report (example_env fl ups) = push_report env0"
  "pull_report (example_env fl ups) = pull_report env0"
  unfolding env0_def
  by (simp_all add: fun_eq_iff push_report_def pull_report_def example_lines example_env_simps)

lemma basename_examples:
  "basename ''/m/a.bin'' = ''a.bin''" "basename ''/m/b.bin'' = ''b.bin''"
  "basename ''/n/a.bin'' = ''a.bin''"
  by (simp_all add: basename_def)

lemma local_ab:
  "local_infos (example_env fl ups) (fs world0) [''/m/a.bin'', ''/m/b.bin''] =
     Some [info_a, info_b]"
  by (simp add: world0_def mk_fileInfo_def basename_examples example_env_simps
      info_a_def info_b_def)


lemma read_events_ab:
  "read_events (example_env fl ups) (fs world0) [''/m/a.bin'', ''/m/b.bin''] =
     [ReadFile ''/m/a.bin'', ReadFile ''/m/b.bin'', Stat ''/m/b.bin'', Stat ''/m/a.bin'']"
  by (simp add: read_events_def stat_calls_def world0_def example_env_simps enumerate_eq_zip
      upt_rec)


lemma read_events_ab0:
  "read_events env0 (fs world0) [''/m/a.bin'', ''/m/b.bin''] =
     [ReadFile ''/m/a.bin'', ReadFile ''/m/b.bin'', Stat ''/m/b.bin'', Stat ''/m/a.bin'']"
  unfolding env0_def by (rule read_events_ab)

lemma s3_ok_examples:
  "s3_ok (example_env fl ups) ''https://s3/1'' d" "s3_ok (example_env fl ups) ''https://s3/2'' d"
  "s3_ok (example_env fl ups) ''https://s3/3'' d"
  "\<not> s3_ok (example_env fl ups) ''https://s3/bad'' d"
  by (simp_all add: s3_ok_def example_env_simps ok_response_def failed_response_def)

lemma parse_push_args0: "parseModelRef (pa_model push_args0) = Inr ref0"
  by (simp add: push_args0_def parseModelRef_def ref0_def)

lemma tagged_push_args0: "includes_char (pa_model push_args0) CHR '':''"
  by (simp add: push_args0_def includes_char_def)

lemma files_push_args0: "pa_files push_args0 = [''/m/a.bin'', ''/m/b.bin'']"
  by (simp add: push_args0_def)

lemma key_client0: "truthy (apiKey client0)"
  by (simp add: client0_def truthy_def)

lemma pull_answers_example:
  "answers (api_pull (example_env fl ups) req) (plan_of fl)"
  by (simp add: example_env_simps answers_def ok_response_def)

lemma init_answers_example:
  "answers (api_push_init (example_env fl ups) req) (session_of ups)"
  by (simp add: example_env_simps answers_def ok_response_def)


lemma matched_examples:
  "matched [info_a, info_b] target_a info_a" "matched [info_a, info_b] target_b info_b"
  "matched [info_a, info_b] target_bad info_b"
  by (simp_all add: matched_def info_a_def info_b_def target_a_def target_b_def target_bad_def)

section \<open>Pull: verification before persistence\<close>

lemma pull_files_step_verified:
  assumes "verified env destDir f b"
  shows "pull_files env destDir (f # rest) downloaded w =
     pull_files env destDir rest (downloaded @ [downloaded_line env f])
       (w\<lparr>fs := (fs w)(join env destDir (pf_filename f) \<mapsto> b),
          trace := trace w @ pull_events env destDir (f, b)\<rparr>)"
  using assms
  by (auto simp: verified_def served_def writeFile_def log_event_def pull_events_def Let_def
      split: option.splits if_splits)

lemma pull_files_step_mismatch:
  assumes "served env f = Some b" and "sha256 env b \<noteq> pf_sha256 f"
  shows "pull_files env destDir (f # rest) downloaded w =
     (Inl (ChecksumMismatch (pf_filename f) (pf_sha256 f) (sha256 env b)),
      log_event (Download (pf_download_url f)) w)"
  using assms
  by (auto simp: served_def Let_def split: option.splits if_splits)

lemma pull_files_verified_prefix:
  assumes "list_all2 (verified env destDir) pre bs"
  shows "pull_files env destDir (pre @ rest) downloaded w =
     pull_files env destDir rest (downloaded @ map (downloaded_line env) pre)
       (w\<lparr>fs := written env destDir (zip pre bs) (fs w),
          trace := trace w @ concat (map (pull_events env destDir) (zip pre bs))\<rparr>)"
  using assms
proof (induction pre bs arbitrary: downloaded w rule: list_all2_induct)
  case Nil
  show ?case by (simp add: written_def)
next
  case (Cons f pre b bs)
  show ?case
    using Cons.hyps(1) Cons.IH
    by (simp add: pull_files_step_verified written_def del: pull_files.simps)
qed

lemma client_pull_answers:
  assumes "truthy (apiKey c)" and "answers (api_pull env (pull_request env c ref)) plan"
  shows "client_pull env c (org ref) (model ref) (tag ref) w =
     (Inr plan, log_event (Http (pull_request env c ref)) w)"
  using assms
    request_answers [of "api_pull env" c "pull_path env (org ref) (model ref) (tag ref)" None plan w]
  by (simp add: client_pull_def await_def requireAuth_def pull_request_def)

lemma pull_after_plan:
  assumes "parseModelRef model_arg = Inr ref"
    and "truthy (apiKey c)"
    and "answers (api_pull env (pull_request env c ref)) plan"
    and "destDir = or_else output_dir
           (resolve env [''pullweights_models'', org ref, model ref, tag ref])"
    and "mkdir_ok env destDir"
  shows "pull env c model_arg output_dir w =
     await (pull_files env destDir (pr_files plan) [])
       (\<lambda>downloaded w3. (Inr (pull_report env ref destDir plan downloaded), w3))
       (w\<lparr>trace := trace w @ [Http (pull_request env c ref), Mkdir destDir]\<rparr>)"
  using assms(1,4,5) client_pull_answers [OF assms(2,3), of w]
  by (simp add: pull_def await_def mkdir_def log_event_def Let_def)

text \<open>
  C1: take a pull whose reference parses, whose key is set, whose plan arrives
  and whose destination directory can be made, and let the files \<open>pre\<close> of the
  plan be served with bytes that hash to their declared digests. If \<open>pre\<close> is the
  whole plan, the pull succeeds, and it has fetched each file and then written
  its bytes to \<^verbatim>\<open><dest>/<filename>\<close>, in plan order. If the next file \<open>f\<close> is served bytes
  whose digest differs from the declared one, the pull aborts with the checksum
  error naming \<open>f\<close>, the declared digest and the computed digest; the last event is
  the fetch of \<open>f\<close>, so \<open>f\<close> is not written and no later file is fetched or written,
  and the disk holds exactly the files of \<open>pre\<close> written before.
\<close>

theorem pull_verifies_before_writing:
  assumes "parseModelRef model_arg = Inr ref"
    and "truthy (apiKey c)"
    and "answers (api_pull env (pull_request env c ref)) plan"
    and "destDir = or_else output_dir
           (resolve env [''pullweights_models'', org ref, model ref, tag ref])"
    and "mkdir_ok env destDir"
    and "list_all2 (verified env destDir) pre bs"
  shows "(pr_files plan = pre \<longrightarrow>
          pull env c model_arg output_dir w =
            (Inr (pull_report env ref destDir plan (map (downloaded_line env) pre)),
             w\<lparr>fs := written env destDir (zip pre bs) (fs w),
                trace := trace w @ [Http (pull_request env c ref), Mkdir destDir] @
                         concat (map (pull_events env destDir) (zip pre bs))\<rparr>)) \<and>
         (pr_files plan = pre @ f # post \<and> served env f = Some b \<and>
          sha256 env b \<noteq> pf_sha256 f \<longrightarrow>
          pull env c model_arg output_dir w =
            (Inl (ChecksumMismatch (pf_filename f) (pf_sha256 f) (sha256 env b)),
             w\<lparr>fs := written env destDir (zip pre bs) (fs w),
                trace := trace w @ [Http (pull_request env c ref), Mkdir destDir] @
                         concat (map (pull_events env destDir) (zip pre bs)) @
                         [Download (pf_download_url f)]\<rparr>) \<and>
          error_message String (ChecksumMismatch (pf_filename f) (pf_sha256 f) (sha256 env b)) =
            Some (''Checksum mismatch for '' @ pf_filename f @ '': expected '' @ pf_sha256 f @
                  '', got '' @ sha256 env b))"
proof -
  let ?w1 = "w\<lparr>trace := trace w @ [Http (pull_request env c ref), Mkdir destDir]\<rparr>"
  have start: "pull env c model_arg output_dir w =
     await (pull_files env destDir (pr_files plan) [])
       (\<lambda>downloaded w3. (Inr (pull_report env ref destDir plan downloaded), w3)) ?w1"
    using assms(1-5) by (rule pull_after_plan)
  have all: "pull_files env destDir pre [] ?w1 =
     (Inr (map (downloaded_line env) pre),
      w\<lparr>fs := written env destDir (zip pre bs) (fs w),
         trace := trace w @ [Http (pull_request env c ref), Mkdir destDir] @
                  concat (map (pull_events env destDir) (zip pre bs))\<rparr>)"
    using pull_files_verified_prefix [OF assms(6), of "[]" "[]" ?w1] by simp
  have bad: "pull_files env destDir (pre @ f # post) [] ?w1 =
     (Inl (ChecksumMismatch (pf_filename f) (pf_sha256 f) (sha256 env b)),
      w\<lparr>fs := written env destDir (zip pre bs) (fs w),
         trace := trace w @ [Http (pull_request env c ref), Mkdir destDir] @
                  concat (map (pull_events env destDir) (zip pre bs)) @
                  [Download (pf_download_url f)]\<rparr>)"
    if "served env f = Some b" and "sha256 env b \<noteq> pf_sha256 f"
    using pull_files_verified_prefix [OF assms(6), of "f # post" "[]" ?w1]
      pull_files_step_mismatch [OF that]
    by (simp add: log_event_def del: pull_files.simps)
  show ?thesis
    using start all bad by (simp add: await_def)
qed

theorem pull_verifies_before_writing_examples:
  "parseModelRef ''acme/resnet:v2'' = Inr ref0 \<and>
   truthy (apiKey client0) \<and>
   answers (api_pull env0 (pull_request env0 client0 ref0)) (plan_of [file_a, file_b, file_c]) \<and>
   ''/dest'' = or_else (Some ''/dest'')
     (resolve env0 [''pullweights_models'', org ref0, model ref0, tag ref0]) \<and>
   mkdir_ok env0 ''/dest'' \<and>
   list_all2 (verified env0 ''/dest'') [file_a] [[1, 2, 3]] \<and>
   pr_files (plan_of [file_a, file_b, file_c]) = [file_a] @ file_b # [file_c] \<and>
   served env0 file_b = Some [4] \<and> sha256 env0 [4] \<noteq> pf_sha256 file_b \<and>
   fst (pull env0 client0 ''acme/resnet:v2'' (Some ''/dest'') world0) =
     Inl (ChecksumMismatch ''b.bin'' ''xx'' ''x'') \<and>
   trace (snd (pull env0 client0 ''acme/resnet:v2'' (Some ''/dest'') world0)) =
     [Http (pull_request env0 client0 ref0), Mkdir ''/dest'', Download ''https://cdn/a'',
      WriteFile ''/dest/a.bin'' [1, 2, 3], Download ''https://cdn/b''] \<and>
   fs (snd (pull env0 client0 ''acme/resnet:v2'' (Some ''/dest'') world0)) ''/dest/a.bin'' =
     Some [1, 2, 3] \<and>
   fs (snd (pull env0 client0 ''acme/resnet:v2'' (Some ''/dest'') world0)) ''/dest/b.bin'' = None \<and>
   fs (snd (pull env0 client0 ''acme/resnet:v2'' (Some ''/dest'') world0)) ''/dest/c.bin'' = None \<and>
   list_all2 (verified (example_env [file_a, file_c] []) ''/dest'') [file_a, file_c]
     [[1, 2, 3], [5]] \<and>
   pr_files (plan_of [file_a, file_c]) = [file_a, file_c] \<and>
   pull (example_env [file_a, file_c] []) client0 ''acme/resnet:v2'' (Some ''/dest'') world0 =
     (Inr (pull_report env0 ref0 ''/dest'' (plan_of [file_a, file_c])
             [downloaded_line env0 file_a, downloaded_line env0 file_c]),
      world0\<lparr>fs := (fs world0)(''/dest/a.bin'' \<mapsto> [1, 2, 3], ''/dest/c.bin'' \<mapsto> [5]),
              trace := [Http (pull_request env0 client0 ref0), Mkdir ''/dest'',
                        Download ''https://cdn/a'', WriteFile ''/dest/a.bin'' [1, 2, 3],
                        Download ''https://cdn/c'', WriteFile ''/dest/c.bin'' [5]]\<rparr>)"
proof -
  let ?ok = "example_env [file_a, file_c] []"
  let ?run = "pull env0 client0 ''acme/resnet:v2'' (Some ''/dest'') world0"
  have h1: "parseModelRef ''acme/resnet:v2'' = Inr ref0"
    by (simp add: parseModelRef_def ref0_def)
  have h2: "truthy (apiKey client0)"
    by (rule key_client0)
  have h3: "answers (api_pull env0 (pull_request env0 client0 ref0))
      (plan_of [file_a, file_b, file_c])"
    unfolding env0_def by (rule pull_answers_example)
  have h3': "answers (api_pull ?ok (pull_request ?ok client0 ref0)) (plan_of [file_a, file_c])"
    by (rule pull_answers_example)
  have h4: "''/dest'' = or_else (Some ''/dest'')
      (resolve env [''pullweights_models'', org ref0, model ref0, tag ref0])" for env
    by (simp add: or_else_def)
  have h5: "mkdir_ok env0 ''/dest''" "mkdir_ok ?ok ''/dest''"
    by (simp_all add: env0_def example_env_simps)
  have va: "verified (example_env fl ups) ''/dest'' file_a [1, 2, 3]" for fl ups
    by (simp add: verified_def served_def example_env_simps file_a_def ok_response_def)
  have vc: "verified (example_env fl ups) ''/dest'' file_c [5]" for fl ups
    by (simp add: verified_def served_def example_env_simps file_c_def ok_response_def)
  have h6: "list_all2 (verified env0 ''/dest'') [file_a] [[1, 2, 3]]"
    unfolding env0_def using va by simp
  have h6': "list_all2 (verified ?ok ''/dest'') [file_a, file_c] [[1, 2, 3], [5]]"
    using va vc by simp
  have h7: "pr_files (plan_of [file_a, file_b, file_c]) = [file_a] @ file_b # [file_c]"
    by (simp add: plan_of_def)
  have h7': "pr_files (plan_of [file_a, file_c]) = [file_a, file_c]"
    by (simp add: plan_of_def)
  have h8: "served env0 file_b = Some [4]"
    by (simp add: served_def env0_def example_env_simps file_b_def ok_response_def)
  have h9: "sha256 env0 [4] \<noteq> pf_sha256 file_b"
    by (simp add: env0_def example_env_simps file_b_def)
  have bad: "?run =
      (Inl (ChecksumMismatch (pf_filename file_b) (pf_sha256 file_b) (sha256 env0 [4])),
       world0\<lparr>fs := written env0 ''/dest'' (zip [file_a] [[1, 2, 3]]) (fs world0),
               trace := trace world0 @ [Http (pull_request env0 client0 ref0), Mkdir ''/dest''] @
                 concat (map (pull_events env0 ''/dest'') (zip [file_a] [[1, 2, 3]])) @
                 [Download (pf_download_url file_b)]\<rparr>)"
    using pull_verifies_before_writing [where f = file_b and post = "[file_c]" and b = "[4]"
        and w = world0, OF h1 h2 h3 h4 h5(1) h6] h7 h8 h9
    by simp
  have r1: "fst ?run = Inl (ChecksumMismatch ''b.bin'' ''xx'' ''x'')"
    unfolding bad by (simp add: file_b_def env0_def example_env_simps)
  have r2: "trace (snd ?run) =
     [Http (pull_request env0 client0 ref0), Mkdir ''/dest'', Download ''https://cdn/a'',
      WriteFile ''/dest/a.bin'' [1, 2, 3], Download ''https://cdn/b'']"
    unfolding bad
    by (simp add: pull_events_def file_a_def file_b_def env0_def example_env_simps world0_def)
  have r3: "fs (snd ?run) ''/dest/a.bin'' = Some [1, 2, 3]"
    "fs (snd ?run) ''/dest/b.bin'' = None" "fs (snd ?run) ''/dest/c.bin'' = None"
    unfolding bad
    by (simp_all add: written_def file_a_def env0_def example_env_simps world0_def)
  have good: "pull ?ok client0 ''acme/resnet:v2'' (Some ''/dest'') world0 =
     (Inr (pull_report env0 ref0 ''/dest'' (plan_of [file_a, file_c])
             [downloaded_line env0 file_a, downloaded_line env0 file_c]),
      world0\<lparr>fs := (fs world0)(''/dest/a.bin'' \<mapsto> [1, 2, 3], ''/dest/c.bin'' \<mapsto> [5]),
              trace := [Http (pull_request env0 client0 ref0), Mkdir ''/dest'',
                        Download ''https://cdn/a'', WriteFile ''/dest/a.bin'' [1, 2, 3],
                        Download ''https://cdn/c'', WriteFile ''/dest/c.bin'' [5]]\<rparr>)"
    using pull_verifies_before_writing [where w = world0, OF h1 h2 h3' h4 h5(2) h6'] h7'
    by (simp add: example_lines example_reports example_requests written_def pull_events_def
        example_env_simps file_a_def file_c_def world0_def)
  show ?thesis
    by (intro conjI) (fact h1 h2 h3 h4 h5 h6 h6' h7 h7' h8 h9 r1 r2 r3 good)+
qed

section \<open>Push: the tag check\<close>

lemma parse_no_colon:
  assumes "\<not> includes_char ref CHR '':''"
  shows "parseModelRef ref =
     (if one_slash_two_segments ref
      then Inr \<lparr>org = split_on CHR ''/'' ref ! 0, model = split_on CHR ''/'' ref ! 1,
                tag = ''latest''\<rparr>
      else Inl (InvalidModelRef ref))"
proof -
  have c: "split_on CHR '':'' ref = [ref]"
    using assms by (simp add: includes_char_def split_on_absent)
  show ?thesis
    unfolding parseModelRef_def c using split_on_two_iff [of ref]
    by (auto simp: Let_def)
qed

text \<open>
  C4: a push whose model reference holds no colon is rejected, with the world
  as it was: no file has been read and no call has been made. The error is the
  explicit-tag error when the reference is a well-formed \<^verbatim>\<open>org/model\<close>, and the
  invalid-reference error otherwise.
\<close>

theorem push_without_colon_rejected:
  assumes "\<not> includes_char (pa_model args) CHR '':''"
  shows "push env c args w =
     (Inl (if one_slash_two_segments (pa_model args) then ExplicitTagRequired
           else InvalidModelRef (pa_model args)), w)"
  using assms parse_no_colon [OF assms]
  by (simp add: push_def)

theorem push_without_colon_rejected_acme:
  "\<not> includes_char (pa_model (push_args0\<lparr>pa_model := ''acme/resnet''\<rparr>)) CHR '':'' \<and>
   push env0 client0 (push_args0\<lparr>pa_model := ''acme/resnet''\<rparr>) world0 =
     (Inl ExplicitTagRequired, world0)"
  using push_without_colon_rejected [of "push_args0\<lparr>pa_model := ''acme/resnet''\<rparr>"
      env0 client0 world0]
  by (simp add: includes_char_def one_slash_two_segments_def)

section \<open>Push: the read phase\<close>

lemma local_infos_Some:
  "local_infos env disk files = Some infos \<Longrightarrow>
   list_all2 (\<lambda>p f. \<exists>d sz. disk p = Some d \<and> stat_size env p = Some sz \<and>
                f = mk_fileInfo env p d sz) files infos"
proof (induction files arbitrary: infos)
  case Nil
  then show ?case by simp
next
  case (Cons p ps)
  then show ?case
    by (auto split: option.splits)
qed



lemma callbacks_resolve:
  "local_infos env disk files = Some infos \<Longrightarrow>
   first_rejection (map (callback env disk) (enumerate k files)) = None \<and>
   resolved (map (callback env disk) (enumerate k files)) = infos"
proof (induction files arbitrary: k infos)
  case Nil
  then show ?case by simp
next
  case (Cons p ps)
  then show ?case
    by (auto simp: callback_def split: option.splits)
qed

lemma readInfos_ok:
  assumes "local_infos env (fs w) files = Some infos"
  shows "readInfos env files w =
     (Inr infos, w\<lparr>trace := trace w @ read_events env (fs w) files\<rparr>)"
  using callbacks_resolve [OF assms, of 0]
  by (simp add: readInfos_def read_events_def Let_def)

lemma read_events_local: "filter is_network (read_events env disk files) = []"
  by (simp add: read_events_def filter_map comp_def)



section \<open>Push: init, uploads, finalize\<close>



lemma upload_all_step_ok:
  assumes "uploaded env infos u f"
  shows "upload_all env infos (u # rest) w =
     upload_all env infos rest (w\<lparr>trace := trace w @ [put_event env (u, f)]\<rparr>)"
  using assms
  by (auto simp: uploaded_def matched_def s3_ok_def uploadToS3_def put_event_def log_event_def
      Let_def split: option.splits)

lemma upload_all_step_fail:
  assumes "matched infos u f" and "\<not> s3_ok env (up_upload_url u) (fi_data f)"
  shows "isl (fst (upload_all env infos (u # rest) w)) \<and>
         snd (upload_all env infos (u # rest) w) = w\<lparr>trace := trace w @ [put_event env (u, f)]\<rparr>"
  using assms
  by (auto simp: matched_def s3_ok_def uploadToS3_def put_event_def log_event_def
      Let_def split: option.splits)

lemma upload_all_prefix:
  assumes "list_all2 (uploaded env infos) pre picked"
  shows "upload_all env infos (pre @ rest) w =
     upload_all env infos rest (w\<lparr>trace := trace w @ map (put_event env) (zip pre picked)\<rparr>)"
  using assms
proof (induction pre picked arbitrary: w rule: list_all2_induct)
  case Nil
  show ?case by simp
next
  case (Cons u pre f picked)
  show ?case
    using Cons.hyps(1) Cons.IH
    by (simp add: upload_all_step_ok del: upload_all.simps)
qed


lemma pushInit_answers:
  assumes "truthy (apiKey c)" and "answers (api_push_init env (init_request env c ref b)) session"
  shows "pushInit env c (org ref) (model ref) b w =
     (Inr session, log_event (Http (init_request env c ref b)) w)"
  using assms request_answers [of "api_push_init env" c "push_init_path env (org ref) (model ref)"
      "Some (json_post (PushInitBody b))" session w]
  by (simp add: pushInit_def await_def requireAuth_def init_request_def)

lemma pushFinalize_logs:
  assumes "truthy (apiKey c)"
  shows "snd (pushFinalize env c (org ref) (model ref) \<lparr>fb_push_id = pid, fb_tag = tag ref\<rparr> w) =
     log_event (Http (finalize_request env c ref pid)) w"
  using assms
  by (simp add: pushFinalize_def await_def requireAuth_def finalize_request_def request_logs
      split: prod.splits sum.splits)


lemma push_after_init:
  assumes "parseModelRef (pa_model args) = Inr ref"
    and "includes_char (pa_model args) CHR '':''"
    and "local_infos env (fs w) (pa_files args) = Some infos"
    and "truthy (apiKey c)"
    and "answers (api_push_init env (init_request env c ref (init_body ref args infos))) session"
  shows "push env c args w =
     await (upload_all env infos (pi_uploads session))
       (\<lambda>_. await (pushFinalize env c (org ref) (model ref)
                      \<lparr>fb_push_id = pi_push_id session, fb_tag = tag ref\<rparr>)
               (\<lambda>finalRes w4. (Inr (push_report env ref finalRes), w4)))
       (w\<lparr>trace := trace w @ read_events env (fs w) (pa_files args) @
                    [Http (init_request env c ref (init_body ref args infos))]\<rparr>)"
  using assms(1,2) readInfos_ok [OF assms(3)]
    pushInit_answers [OF assms(4,5)]
  by (simp add: push_def push_transfer_def await_def log_event_def)

lemma push_uploads_trace:
  assumes "parseModelRef (pa_model args) = Inr ref"
    and "includes_char (pa_model args) CHR '':''"
    and "local_infos env (fs w) (pa_files args) = Some fileInfos"
    and "truthy (apiKey c)"
    and "answers (api_push_init env (init_request env c ref (init_body ref args fileInfos))) session"
    and "list_all2 (uploaded env fileInfos) (pi_uploads session) picked"
  shows "snd (push env c args w) =
           w\<lparr>trace := trace w @ read_events env (fs w) (pa_files args) @
                 [Http (init_request env c ref (init_body ref args fileInfos))] @
                 map (put_event env) (zip (pi_uploads session) picked) @
                 [Http (finalize_request env c ref (pi_push_id session))]\<rparr>"
proof -
  let ?w1 = "w\<lparr>trace := trace w @ read_events env (fs w) (pa_files args) @
                    [Http (init_request env c ref (init_body ref args fileInfos))]\<rparr>"
  let ?w2 = "?w1\<lparr>trace := trace ?w1 @ map (put_event env) (zip (pi_uploads session) picked)\<rparr>"
  have ups: "upload_all env fileInfos (pi_uploads session) ?w1 = (Inr (), ?w2)"
    using upload_all_prefix [OF assms(6), of "[]" ?w1] by simp
  have "snd (push env c args w) =
      snd (pushFinalize env c (org ref) (model ref)
             \<lparr>fb_push_id = pi_push_id session, fb_tag = tag ref\<rparr> ?w2)"
    unfolding push_after_init [OF assms(1-5)] using ups
    by (simp add: await_def split: prod.splits sum.splits)
  then show ?thesis
    using pushFinalize_logs [OF assms(4), of env ref "pi_push_id session" ?w2]
    by (simp add: log_event_def)
qed


lemma network_calls_of_push:
  "filter is_network
     (read_events env disk files @ [Http r] @ map (put_event env) ups @ rest) =
   [Http r] @ map (put_event env) ups @ filter is_network rest"
  by (simp add: read_events_local filter_map comp_def put_event_def s3_put_event_def)

lemma no_finalize_before_finalize:
  "\<not> list_ex is_finalize
       (read_events env disk files @ [Http (init_request env c ref b)] @
        map (put_event env) ups @ [put_event env uf])"
  by (auto simp: list_ex_iff read_events_def put_event_def s3_put_event_def init_request_def
      build_request_def json_post_def)

text \<open>
  C2: take a push whose reference parses with an explicit tag, whose files are all
  read and measured, whose key is set and whose init call is answered with a
  session. The init body holds one descriptor per input path. If every upload
  target of the session is matched to a local file and accepted by the blob
  store, the network calls of the push are, in this order: the one init request,
  one PUT per target in the order of the session, the one finalize request; they
  follow the file-system calls of the read phase. If the targets \<open>pre\<close> are
  uploaded and the PUT for the next target fails, the push ends with an error,
  that PUT is the last call, and no finalize request is issued.
\<close>

theorem push_init_uploads_finalize:
  assumes "parseModelRef (pa_model args) = Inr ref"
    and "includes_char (pa_model args) CHR '':''"
    and "local_infos env (fs w) (pa_files args) = Some fileInfos"
    and "truthy (apiKey c)"
    and "answers (api_push_init env (init_request env c ref (init_body ref args fileInfos))) session"
    and "list_all2 (uploaded env fileInfos) pre picked"
  shows "length (ib_files (init_body ref args fileInfos)) = length (pa_files args) \<and>
         (pi_uploads session = pre \<longrightarrow>
            snd (push env c args w) =
              w\<lparr>trace := trace w @ read_events env (fs w) (pa_files args) @
                    [Http (init_request env c ref (init_body ref args fileInfos))] @
                    map (put_event env) (zip pre picked) @
                    [Http (finalize_request env c ref (pi_push_id session))]\<rparr> \<and>
            filter is_network (drop (length (trace w)) (trace (snd (push env c args w)))) =
              [Http (init_request env c ref (init_body ref args fileInfos))] @
              map (put_event env) (zip pre picked) @
              [Http (finalize_request env c ref (pi_push_id session))]) \<and>
         (pi_uploads session = pre @ upload # post \<and> matched fileInfos upload f \<and>
          \<not> s3_ok env (up_upload_url upload) (fi_data f) \<longrightarrow>
            isl (fst (push env c args w)) \<and>
            snd (push env c args w) =
              w\<lparr>trace := trace w @ read_events env (fs w) (pa_files args) @
                    [Http (init_request env c ref (init_body ref args fileInfos))] @
                    map (put_event env) (zip pre picked) @ [put_event env (upload, f)]\<rparr> \<and>
            filter is_network (drop (length (trace w)) (trace (snd (push env c args w)))) =
              [Http (init_request env c ref (init_body ref args fileInfos))] @
              map (put_event env) (zip pre picked) @ [put_event env (upload, f)] \<and>
            \<not> list_ex is_finalize (drop (length (trace w)) (trace (snd (push env c args w)))))"
proof -
  let ?init = "Http (init_request env c ref (init_body ref args fileInfos))"
  let ?w1 = "w\<lparr>trace := trace w @ read_events env (fs w) (pa_files args) @ [?init]\<rparr>"
  let ?fin = "\<lambda>_::unit. await (pushFinalize env c (org ref) (model ref)
                      \<lparr>fb_push_id = pi_push_id session, fb_tag = tag ref\<rparr>)
               (\<lambda>finalRes w4. (Inr (push_report env ref finalRes), w4))"
  have start: "push env c args w = await (upload_all env fileInfos (pi_uploads session)) ?fin ?w1"
    using assms(1-5) by (rule push_after_init)
  have n: "length (ib_files (init_body ref args fileInfos)) = length (pa_files args)"
    using local_infos_Some [OF assms(3)] by (simp add: init_body_def list_all2_lengthD)
  have good: "snd (push env c args w) =
      w\<lparr>trace := trace w @ read_events env (fs w) (pa_files args) @ [?init] @
                    map (put_event env) (zip pre picked) @
                    [Http (finalize_request env c ref (pi_push_id session))]\<rparr>"
    if "pi_uploads session = pre"
    using push_uploads_trace [OF assms(1-5), of picked] assms(6) that by simp
  have good_net: "filter is_network (drop (length (trace w)) (trace (snd (push env c args w)))) =
      [?init] @ map (put_event env) (zip pre picked) @
      [Http (finalize_request env c ref (pi_push_id session))]"
    if "pi_uploads session = pre"
    unfolding good [OF that]
    using network_calls_of_push [of env "fs w" "pa_files args" _ "zip pre picked"
        "[Http (finalize_request env c ref (pi_push_id session))]"]
    by simp
  have bad: "isl (fst (push env c args w)) \<and>
      snd (push env c args w) =
        w\<lparr>trace := trace w @ read_events env (fs w) (pa_files args) @ [?init] @
                    map (put_event env) (zip pre picked) @ [put_event env (upload, f)]\<rparr>"
    if "pi_uploads session = pre @ upload # post" and "matched fileInfos upload f"
      and "\<not> s3_ok env (up_upload_url upload) (fi_data f)"
  proof -
    let ?w2 = "?w1\<lparr>trace := trace ?w1 @ map (put_event env) (zip pre picked)\<rparr>"
    have pre: "upload_all env fileInfos (pre @ upload # post) ?w1 =
        upload_all env fileInfos (upload # post) ?w2"
      using assms(6) by (rule upload_all_prefix)
    obtain r w3 where r: "upload_all env fileInfos (upload # post) ?w2 = (r, w3)"
      by (cases "upload_all env fileInfos (upload # post) ?w2")
    have w3: "isl r" "w3 = ?w2\<lparr>trace := trace ?w2 @ [put_event env (upload, f)]\<rparr>"
      using upload_all_step_fail [OF that(2,3), of post ?w2] r by simp_all
    have "upload_all env fileInfos (pi_uploads session) ?w1 = (r, w3)"
      using pre r that(1) by simp
    then show ?thesis
      unfolding start using w3 by (cases r) (simp_all add: await_def)
  qed
  have bad_net: "filter is_network (drop (length (trace w)) (trace (snd (push env c args w)))) =
      [?init] @ map (put_event env) (zip pre picked) @ [put_event env (upload, f)] \<and>
      \<not> list_ex is_finalize (drop (length (trace w)) (trace (snd (push env c args w))))"
    if "pi_uploads session = pre @ upload # post" and "matched fileInfos upload f"
      and "\<not> s3_ok env (up_upload_url upload) (fi_data f)"
    using bad [OF that, THEN conjunct2]
      network_calls_of_push [of env "fs w" "pa_files args" _ "zip pre picked"
        "[put_event env (upload, f)]"]
      no_finalize_before_finalize [of env "fs w" "pa_files args" c ref
        "init_body ref args fileInfos" "zip pre picked" "(upload, f)"]
    by (simp add: put_event_def s3_put_event_def)
  show ?thesis
    using n good good_net bad bad_net by blast
qed

theorem push_init_uploads_finalize_examples:
  "parseModelRef (pa_model push_args0) = Inr ref0 \<and>
   includes_char (pa_model push_args0) CHR '':'' \<and>
   local_infos env0 (fs world0) (pa_files push_args0) = Some [info_a, info_b] \<and>
   truthy (apiKey client0) \<and>
   answers (api_push_init env0
              (init_request env0 client0 ref0 (init_body ref0 push_args0 [info_a, info_b])))
     (session_of [target_a, target_b]) \<and>
   list_all2 (uploaded env0 [info_a, info_b]) [target_a, target_b] [info_a, info_b] \<and>
   pi_uploads (session_of [target_a, target_b]) = [target_a, target_b] \<and>
   trace (snd (push env0 client0 push_args0 world0)) =
     [ReadFile ''/m/a.bin'', ReadFile ''/m/b.bin'', Stat ''/m/b.bin'', Stat ''/m/a.bin'',
      Http (init_request env0 client0 ref0 (init_body ref0 push_args0 [info_a, info_b])),
      s3_put_event env0 ''https://s3/1'' [1, 2, 3], s3_put_event env0 ''https://s3/2'' [4, 5],
      Http (finalize_request env0 client0 ref0 ''push1'')] \<and>
   local_infos (example_env [] [target_a, target_bad, target_a2]) (fs world0)
       (pa_files push_args0) =
     Some [info_a, info_b] \<and>
   answers (api_push_init (example_env [] [target_a, target_bad, target_a2])
              (init_request (example_env [] [target_a, target_bad, target_a2]) client0 ref0
                 (init_body ref0 push_args0 [info_a, info_b])))
     (session_of [target_a, target_bad, target_a2]) \<and>
   list_all2 (uploaded (example_env [] [target_a, target_bad, target_a2]) [info_a, info_b])
     [target_a] [info_a] \<and>
   pi_uploads (session_of [target_a, target_bad, target_a2]) =
     [target_a] @ target_bad # [target_a2] \<and>
   matched [info_a, info_b] target_bad info_b \<and>
   \<not> s3_ok (example_env [] [target_a, target_bad, target_a2]) (up_upload_url target_bad)
        (fi_data info_b) \<and>
   isl (fst (push (example_env [] [target_a, target_bad, target_a2]) client0 push_args0
               world0)) \<and>
   trace (snd (push (example_env [] [target_a, target_bad, target_a2]) client0 push_args0
                 world0)) =
     [ReadFile ''/m/a.bin'', ReadFile ''/m/b.bin'', Stat ''/m/b.bin'', Stat ''/m/a.bin'',
      Http (init_request env0 client0 ref0 (init_body ref0 push_args0 [info_a, info_b])),
      s3_put_event env0 ''https://s3/1'' [1, 2, 3], s3_put_event env0 ''https://s3/bad'' [4, 5]]"
proof -
  let ?bad = "example_env [] [target_a, target_bad, target_a2]"
  have reads: "local_infos (example_env fl ups) (fs world0) (pa_files push_args0) =
      Some [info_a, info_b]" for fl ups
    unfolding files_push_args0 by (rule local_ab)
  have h3: "local_infos env0 (fs world0) (pa_files push_args0) = Some [info_a, info_b]"
    unfolding env0_def by (rule reads)
  have h5: "answers (api_push_init env0
              (init_request env0 client0 ref0 (init_body ref0 push_args0 [info_a, info_b])))
     (session_of [target_a, target_b])"
    unfolding env0_def by (rule init_answers_example)
  have up_good: "list_all2 (uploaded env0 [info_a, info_b]) [target_a, target_b] [info_a, info_b]"
    unfolding env0_def using matched_examples
    by (simp add: uploaded_def s3_ok_examples target_a_def target_b_def)
  have up_bad: "list_all2 (uploaded ?bad [info_a, info_b]) [target_a] [info_a]"
    using matched_examples by (simp add: uploaded_def s3_ok_examples target_a_def)
  have fail: "\<not> s3_ok ?bad (up_upload_url target_bad) (fi_data info_b)"
    by (simp add: s3_ok_examples target_bad_def)
  have u1: "pi_uploads (session_of [target_a, target_b]) = [target_a, target_b]"
    and u2: "pi_uploads (session_of [target_a, target_bad, target_a2]) =
      [target_a] @ target_bad # [target_a2]"
    by (simp_all add: session_of_def)
  have puts: "put_event env (u, g) = s3_put_event env (up_upload_url u) (fi_data g)" for env u g
    by (simp add: put_event_def)
  have "snd (push env0 client0 push_args0 world0) =
      world0\<lparr>trace := trace world0 @ read_events env0 (fs world0) (pa_files push_args0) @
        [Http (init_request env0 client0 ref0 (init_body ref0 push_args0 [info_a, info_b]))] @
        map (put_event env0) (zip [target_a, target_b] [info_a, info_b]) @
        [Http (finalize_request env0 client0 ref0 (pi_push_id (session_of [target_a, target_b])))]\<rparr>"
    using push_init_uploads_finalize [OF parse_push_args0 tagged_push_args0 h3
        key_client0 h5 up_good] u1
    by blast
  then have good: "trace (snd (push env0 client0 push_args0 world0)) =
     [ReadFile ''/m/a.bin'', ReadFile ''/m/b.bin'', Stat ''/m/b.bin'', Stat ''/m/a.bin'',
      Http (init_request env0 client0 ref0 (init_body ref0 push_args0 [info_a, info_b])),
      s3_put_event env0 ''https://s3/1'' [1, 2, 3], s3_put_event env0 ''https://s3/2'' [4, 5],
      Http (finalize_request env0 client0 ref0 ''push1'')]"
    unfolding files_push_args0 read_events_ab0
    by (simp add: puts world0_def target_a_def target_b_def info_a_def info_b_def session_of_def)
  have "isl (fst (push ?bad client0 push_args0 world0)) \<and>
      snd (push ?bad client0 push_args0 world0) =
      world0\<lparr>trace := trace world0 @ read_events ?bad (fs world0) (pa_files push_args0) @
        [Http (init_request ?bad client0 ref0 (init_body ref0 push_args0 [info_a, info_b]))] @
        map (put_event ?bad) (zip [target_a] [info_a]) @ [put_event ?bad (target_bad, info_b)]\<rparr>"
    using push_init_uploads_finalize [where upload = target_bad and post = "[target_a2]"
        and f = info_b, OF parse_push_args0 tagged_push_args0 reads
        key_client0 init_answers_example up_bad] u2 matched_examples(3) fail
    by blast
  then have bad: "isl (fst (push ?bad client0 push_args0 world0)) \<and>
     trace (snd (push ?bad client0 push_args0 world0)) =
     [ReadFile ''/m/a.bin'', ReadFile ''/m/b.bin'', Stat ''/m/b.bin'', Stat ''/m/a.bin'',
      Http (init_request env0 client0 ref0 (init_body ref0 push_args0 [info_a, info_b])),
      s3_put_event env0 ''https://s3/1'' [1, 2, 3], s3_put_event env0 ''https://s3/bad'' [4, 5]]"
    unfolding files_push_args0 read_events_ab
    by (simp add: example_requests puts world0_def target_a_def target_bad_def
        info_a_def info_b_def)
  show ?thesis
    by (intro conjI)
      (fact parse_push_args0 tagged_push_args0 h3 key_client0 h5 up_good u1 good reads
        init_answers_example up_bad u2 matched_examples(3) fail bad [THEN conjunct1]
        bad [THEN conjunct2])+
qed




section \<open>Push: files are matched by basename\<close>



section \<open>Push: a trailing colon\<close>

text \<open>
  C10: for an organisation and a name that are non-empty and hold neither slash
  nor colon, parsing \<^verbatim>\<open>org/name:\<close> succeeds with the empty string as tag (not
  \<^verbatim>\<open>latest\<close>), and a push with that reference passes the explicit-tag check: it
  is the transfer (hashing, init, uploads, finalize) run with the empty tag.
\<close>

theorem trailing_colon_empty_tag:
  assumes "og \<noteq> []" and "nm \<noteq> []"
    and "CHR ''/'' \<notin> set og" and "CHR '':'' \<notin> set og"
    and "CHR ''/'' \<notin> set nm" and "CHR '':'' \<notin> set nm"
    and "pa_model args = og @ ''/'' @ nm @ '':''"
  shows "parseModelRef (og @ ''/'' @ nm @ '':'') = Inr \<lparr>org = og, model = nm, tag = []\<rparr> \<and>
         push env c args w = push_transfer env c \<lparr>org = og, model = nm, tag = []\<rparr> args w"
proof -
  have p: "parseModelRef (og @ ''/'' @ nm @ '':'') = Inr \<lparr>org = og, model = nm, tag = []\<rparr>"
    using assms parse_tagged [of og nm "[]"] by simp
  show ?thesis
    using p assms(7) by (simp add: push_def)
qed

theorem trailing_colon_empty_tag_example:
  "''org'' \<noteq> [] \<and> ''name'' \<noteq> [] \<and>
   CHR ''/'' \<notin> set ''org'' \<and> CHR '':'' \<notin> set ''org'' \<and>
   CHR ''/'' \<notin> set ''name'' \<and> CHR '':'' \<notin> set ''name'' \<and>
   pa_model (push_args0\<lparr>pa_model := ''org/name:''\<rparr>) = ''org'' @ ''/'' @ ''name'' @ '':'' \<and>
   parseModelRef ''org/name:'' = Inr \<lparr>org = ''org'', model = ''name'', tag = []\<rparr> \<and>
   push env0 client0 (push_args0\<lparr>pa_model := ''org/name:''\<rparr>) world0 =
     push_transfer env0 client0 \<lparr>org = ''org'', model = ''name'', tag = []\<rparr>
       (push_args0\<lparr>pa_model := ''org/name:''\<rparr>) world0 \<and>
   ib_tag (init_body \<lparr>org = ''org'', model = ''name'', tag = []\<rparr>
             (push_args0\<lparr>pa_model := ''org/name:''\<rparr>) [info_a, info_b]) = [] \<and>
   filter is_network
     (trace (snd (push env0 client0 (push_args0\<lparr>pa_model := ''org/name:''\<rparr>) world0))) =
     [Http (init_request env0 client0 \<lparr>org = ''org'', model = ''name'', tag = []\<rparr>
              (init_body \<lparr>org = ''org'', model = ''name'', tag = []\<rparr>
                 (push_args0\<lparr>pa_model := ''org/name:''\<rparr>) [info_a, info_b])),
      s3_put_event env0 ''https://s3/1'' [1, 2, 3], s3_put_event env0 ''https://s3/2'' [4, 5],
      Http (finalize_request env0 client0 \<lparr>org = ''org'', model = ''name'', tag = []\<rparr>
              ''push1'')]"
proof -
  let ?args = "push_args0\<lparr>pa_model := ''org/name:''\<rparr>"
  let ?ref = "\<lparr>org = ''org'', model = ''name'', tag = []\<rparr>"
  have h7: "pa_model ?args = ''org'' @ ''/'' @ ''name'' @ '':''"
    by simp
  have main: "parseModelRef ''org/name:'' = Inr ?ref \<and>
      push env0 client0 ?args world0 = push_transfer env0 client0 ?ref ?args world0"
    using trailing_colon_empty_tag [of "''org''" "''name''" ?args env0 client0 world0] by simp
  have parse: "parseModelRef (pa_model ?args) = Inr ?ref"
    using main by simp
  have tagged: "includes_char (pa_model ?args) CHR '':''"
    by (simp add: includes_char_def)
  have files: "pa_files ?args = [''/m/a.bin'', ''/m/b.bin'']"
    by (simp add: push_args0_def)
  have reads: "local_infos env0 (fs world0) (pa_files ?args) = Some [info_a, info_b]"
    unfolding files env0_def by (rule local_ab)
  have init: "answers (api_push_init env0
      (init_request env0 client0 ?ref (init_body ?ref ?args [info_a, info_b])))
      (session_of [target_a, target_b])"
    unfolding env0_def by (rule init_answers_example)
  have ups: "list_all2 (uploaded env0 [info_a, info_b])
      (pi_uploads (session_of [target_a, target_b])) [info_a, info_b]"
    unfolding env0_def using matched_examples
    by (simp add: uploaded_def s3_ok_examples target_a_def target_b_def session_of_def)
  have r1: "ib_tag (init_body ?ref ?args [info_a, info_b]) = []"
    by (simp add: init_body_def)
  have r2: "filter is_network (trace (snd (push env0 client0 ?args world0))) =
     [Http (init_request env0 client0 ?ref (init_body ?ref ?args [info_a, info_b])),
      s3_put_event env0 ''https://s3/1'' [1, 2, 3], s3_put_event env0 ''https://s3/2'' [4, 5],
      Http (finalize_request env0 client0 ?ref ''push1'')]"
    unfolding push_uploads_trace [OF parse tagged reads key_client0 init ups]
    using network_calls_of_push [of env0 "fs world0" "pa_files ?args" _
        "zip (pi_uploads (session_of [target_a, target_b])) [info_a, info_b]"
        "[Http (finalize_request env0 client0 ?ref (pi_push_id (session_of [target_a, target_b])))]"]
    by (simp add: put_event_def world0_def target_a_def target_b_def info_a_def info_b_def
        session_of_def)
  have c: "''org'' \<noteq> []" "''name'' \<noteq> []" "CHR ''/'' \<notin> set ''org''" "CHR '':'' \<notin> set ''org''"
    "CHR ''/'' \<notin> set ''name''" "CHR '':'' \<notin> set ''name''"
    by simp_all
  show ?thesis
    by (intro conjI) (fact c h7 main [THEN conjunct1] main [THEN conjunct2] r1 r2)+
qed

section \<open>Update: an empty payload\<close>

text \<open>
  C8, as stated, fails: an update of \<^verbatim>\<open>acme/resnet\<close> with no field supplied does not
  fail; it returns the text that asks for at least one field. (No request is made:
  the world is as it was.)
\<close>

theorem update_without_fields_returns_text:
  "update updateModel0 update_args0 world0 =
     (Inr ''No fields to update. Provide at least one of: description, visibility, framework, license, tags.'',
      world0)"
  by (simp add: update_def update_args0_def body_keys_def)

text \<open>
  C8, amended: an update whose reference is a well-formed \<^verbatim>\<open>org/model\<close> and in which
  none of description, visibility, framework, license and tags is supplied
  returns normally with the text \<^verbatim>\<open>No fields to update. ...\<close>, and the world is as it
  was: the client method is not called and no request is made.
\<close>

theorem update_without_fields:
  assumes "one_slash_two_segments (ua_model args)"
    and "ua_description args = None" and "ua_visibility args = None"
    and "ua_framework args = None" and "ua_license args = None" and "ua_tags args = None"
  shows "update updateModel args w =
     (Inr (''No fields to update. Provide at least one of: '' @
           ''description, visibility, framework, license, tags.''), w)"
  using assms split_on_two_iff [of "ua_model args"]
  by (auto simp: update_def body_keys_def Let_def)

theorem update_without_fields_acme:
  "one_slash_two_segments (ua_model update_args0) \<and>
   ua_description update_args0 = None \<and> ua_visibility update_args0 = None \<and>
   ua_framework update_args0 = None \<and> ua_license update_args0 = None \<and>
   ua_tags update_args0 = None \<and>
   update updateModel0 update_args0 world0 =
     (Inr (''No fields to update. Provide at least one of: '' @
           ''description, visibility, framework, license, tags.''), world0)"
  using update_without_fields [of update_args0 updateModel0 world0]
  by (simp add: update_args0_def one_slash_two_segments_def)

end
